theory Spec2Isabelle
  imports Main
begin

section \<open>Strings and paths\<close>

text \<open>
  JavaScript strings are modelled as \<^typ>\<open>string\<close>, one \<^typ>\<open>char\<close> per code unit
  (the paths, versions and script names of a project are ASCII).
\<close>

definition endsWith :: "string \<Rightarrow> string \<Rightarrow> bool" where
  "endsWith s suf = (length suf \<le> length s \<and> drop (length s - length suf) s = suf)"

definition startsWith :: "string \<Rightarrow> string \<Rightarrow> bool" where
  "startsWith s pre = (take (length pre) s = pre)"

text \<open>\<^verbatim>\<open>s.split('/')\<close>: the segments between the separators, never an empty list.\<close>

fun splitSlash :: "string \<Rightarrow> string list" where
  "splitSlash [] = [[]]"
| "splitSlash (c # cs) =
     (if c = CHR ''/'' then [] # splitSlash cs
      else (case splitSlash cs of [] \<Rightarrow> [[c]] | w # ws \<Rightarrow> (c # w) # ws))"

text \<open>\<^verbatim>\<open>segs.join(sep)\<close>, and \<^verbatim>\<open>segs.join('/')\<close>.\<close>

fun joinWith :: "string \<Rightarrow> string list \<Rightarrow> string" where
  "joinWith sep [] = []"
| "joinWith sep [s] = s"
| "joinWith sep (s # t # ss) = s @ sep @ joinWith sep (t # ss)"


fun joinSlash :: "string list \<Rightarrow> string" where
  "joinSlash [] = []"
| "joinSlash [s] = s"
| "joinSlash (s # t # ss) = s @ CHR ''/'' # joinSlash (t # ss)"

text \<open>
  Node's POSIX \<^verbatim>\<open>path\<close> module. \<^verbatim>\<open>normalizeString\<close> walks the segments of a path
  and keeps the resolved ones: an empty segment and \<^verbatim>\<open>.\<close> are dropped, \<^verbatim>\<open>..\<close> removes
  the segment before it, and is kept only in a relative path that has nothing left to
  remove. The resolved segments are held last first.
\<close>

fun normalizeStep :: "bool \<Rightarrow> string list \<Rightarrow> string \<Rightarrow> string list" where
  "normalizeStep allowAboveRoot res seg =
     (if seg = [] \<or> seg = ''.'' then res
      else if seg = ''..'' then
        (case res of
           [] \<Rightarrow> (if allowAboveRoot then [''..''] else [])
         | r # rs \<Rightarrow> (if r = ''..'' then (if allowAboveRoot then ''..'' # r # rs else r # rs)
                     else rs))
      else seg # res)"

definition normalizeString :: "string \<Rightarrow> bool \<Rightarrow> string list" where
  "normalizeString p allowAboveRoot = rev (foldl (normalizeStep allowAboveRoot) [] (splitSlash p))"

definition path_normalize :: "string \<Rightarrow> string" where
  "path_normalize p =
     (if p = [] then ''.''
      else
        let isAbsolute = (hd p = CHR ''/'');
            trailingSeparator = (last p = CHR ''/'');
            res = joinSlash (normalizeString p (\<not> isAbsolute))
        in if res = [] then (if isAbsolute then ''/'' else if trailingSeparator then ''./'' else ''.'')
           else (if isAbsolute then ''/'' else []) @ res @ (if trailingSeparator then ''/'' else []))"

text \<open>\<^verbatim>\<open>path.join(...args)\<close>: the non-empty arguments joined by a slash, then normalised.\<close>

definition path_join :: "string list \<Rightarrow> string" where
  "path_join args =
     (let parts = filter (\<lambda>a. a \<noteq> []) args
      in if parts = [] then ''.'' else path_normalize (joinSlash parts))"

text \<open>
  \<^verbatim>\<open>path.dirname(p)\<close>: the scan runs from the last character down to index 1, skips
  the trailing slashes and the base name, and cuts at the slash it meets next.
\<close>

definition path_dirname :: "string \<Rightarrow> string" where
  "path_dirname p =
     (if p = [] then ''.''
      else
        let hasRoot = (hd p = CHR ''/'');
            scanned = dropWhile (\<lambda>c. c \<noteq> CHR ''/'') (dropWhile (\<lambda>c. c = CHR ''/'') (rev (tl p)))
        in (case scanned of
              [] \<Rightarrow> (if hasRoot then ''/'' else ''.'')
            | _ # front \<Rightarrow>
                (if hasRoot \<and> front = [] then ''//'' else take (Suc (length front)) p)))"

text \<open>
  \<^verbatim>\<open>path.relative(from, to)\<close>: both paths are resolved against the working directory
  \<^verbatim>\<open>cwd\<close> of the process, the common leading segments are dropped, and every segment
  left of \<^verbatim>\<open>from\<close> becomes \<^verbatim>\<open>..\<close>.
\<close>

definition path_resolve :: "string \<Rightarrow> string \<Rightarrow> string list" where
  "path_resolve cwd p =
     (if p \<noteq> [] \<and> hd p = CHR ''/'' then normalizeString p False
      else normalizeString (cwd @ ''/'' @ p) False)"

fun dropCommon :: "string list \<Rightarrow> string list \<Rightarrow> string list \<times> string list" where
  "dropCommon (a # xs) (b # ys) = (if a = b then dropCommon xs ys else (a # xs, b # ys))"
| "dropCommon xs ys = (xs, ys)"

definition path_relative :: "string \<Rightarrow> string \<Rightarrow> string \<Rightarrow> string" where
  "path_relative cwd src dst =
     (case dropCommon (path_resolve cwd src) (path_resolve cwd dst) of
        (fromRest, toRest) \<Rightarrow> joinSlash (map (\<lambda>_. ''..'') fromRest @ toRest))"

section \<open>The manifest and the version classifier\<close>

text \<open>
  The parsed \<^verbatim>\<open>package.json\<close>, with the three properties the builder reads. Each is
  absent or an object from names to strings, as the type annotation of
  \<^verbatim>\<open>getNextVersion\<close> has it.
\<close>

record packageJson =
  dependencies :: "(string \<rightharpoonup> string) option"
  devDependencies :: "(string \<rightharpoonup> string) option"
  scripts :: "(string \<rightharpoonup> string) option"

text \<open>\<^verbatim>\<open>obj && obj[k]\<close>, and JavaScript's truth of the outcome: a non-empty string.\<close>

definition getProp :: "(string \<rightharpoonup> string) option \<Rightarrow> string \<Rightarrow> string option" where
  "getProp obj k = (case obj of None \<Rightarrow> None | Some m \<Rightarrow> m k)"

definition truthy :: "string option \<Rightarrow> bool" where
  "truthy v = (case v of None \<Rightarrow> False | Some s \<Rightarrow> s \<noteq> [])"

definition getNextVersion :: "packageJson \<Rightarrow> string option" where
  "getNextVersion packageJson =
     (if truthy (getProp (dependencies packageJson) ''next'')
        then getProp (dependencies packageJson) ''next''
      else if truthy (getProp (devDependencies packageJson) ''next'')
        then getProp (devDependencies packageJson) ''next''
      else None)"

text \<open>
  The \<^verbatim>\<open>semver\<close> package is a dependency, not code of the builder. It enters as two
  functions: \<^verbatim>\<open>new Range(range)\<close>, which is \<open>None\<close> where the constructor throws
  and otherwise the range's \<^verbatim>\<open>test\<close> on version strings, and the comparison of two
  versions (\<open>-1\<close>, \<open>0\<close> or \<open>1\<close>). \<^verbatim>\<open>maxSatisfying\<close> and \<^verbatim>\<open>satisfies\<close> are the
  package's own functions over them: an unparsable range gives \<^verbatim>\<open>null\<close> and
  \<^verbatim>\<open>false\<close>.
\<close>

record semver =
  semver_Range :: "string \<Rightarrow> (string \<Rightarrow> bool) option"
  semver_compare :: "string \<Rightarrow> string \<Rightarrow> int"

fun maxSatisfying_forEach ::
  "(string \<Rightarrow> string \<Rightarrow> int) \<Rightarrow> (string \<Rightarrow> bool) \<Rightarrow> string list \<Rightarrow> string option \<Rightarrow> string option"
where
  "maxSatisfying_forEach cmp test [] mx = mx"
| "maxSatisfying_forEach cmp test (v # vs) mx =
     maxSatisfying_forEach cmp test vs
       (if test v then
          (case mx of
             None \<Rightarrow> Some v
           | Some m \<Rightarrow> (if m = [] \<or> cmp m v = - 1 then Some v else Some m))
        else mx)"

definition maxSatisfying :: "semver \<Rightarrow> string list \<Rightarrow> string \<Rightarrow> string option" where
  "maxSatisfying sv versions rng =
     (case semver_Range sv rng of
        None \<Rightarrow> None
      | Some test \<Rightarrow> maxSatisfying_forEach (semver_compare sv) test versions None)"

definition satisfies :: "semver \<Rightarrow> string \<Rightarrow> string \<Rightarrow> bool" where
  "satisfies sv version rng =
     (case semver_Range sv rng of None \<Rightarrow> False | Some test \<Rightarrow> test version)"

text \<open>
  \<^verbatim>\<open>isLegacyNext\<close>. The list \<^verbatim>\<open>nextLegacyVersions\<close> of \<^verbatim>\<open>./legacy-versions\<close> is a
  parameter.
\<close>

definition isLegacyNext :: "semver \<Rightarrow> string list \<Rightarrow> string \<Rightarrow> bool" where
  "isLegacyNext sv nextLegacyVersions nextVersion =
     (if nextVersion = ''canary'' \<or> nextVersion = ''latest'' then False
      else if nextVersion \<in> set nextLegacyVersions then True
      else (case maxSatisfying sv nextLegacyVersions nextVersion of
              None \<Rightarrow> False
            | Some _ \<Rightarrow> True))"

section \<open>File sets and the serve predicate\<close>

datatype File = FileFsRef string | FileBlob string | FileRef string

type_synonym Files = "string \<rightharpoonup> File"

text \<open>\<^verbatim>\<open>files[k].fsPath\<close> of a file that is there.\<close>

fun fsPath :: "File \<Rightarrow> string option" where
  "fsPath (FileFsRef p) = Some p"
| "fsPath (FileBlob d) = None"
| "fsPath (FileRef d) = None"

fun inPages :: "Files \<Rightarrow> string \<Rightarrow> string list \<Rightarrow> bool" where
  "inPages pages entry [] = False"
| "inPages pages entry (n # names) =
     (if pages ((if entry \<noteq> [] then entry @ ''/'' else []) @ ''pages/'' @ n) \<noteq> None then True
      else inPages pages entry names)"

definition pageExists :: "string \<Rightarrow> Files \<Rightarrow> string \<Rightarrow> bool" where
  "pageExists name pages entry =
     (if name = [] \<or> name = ''/'' then
        inPages pages entry [''index.js'', ''index.ts'', ''index.jsx'', ''index.tsx'', ''index.mdx'']
      else
        inPages pages entry
          [name @ ''.js'', name @ ''.ts'', name @ ''.jsx'', name @ ''.tsx'', name @ ''.mdx'',
           name @ ''/index.js'', name @ ''/index.ts'', name @ ''/index.jsx'',
           name @ ''/index.tsx'', name @ ''/index.mdx''])"

text \<open>
  The three regular expressions of \<^verbatim>\<open>shouldServe\<close> are built from the entry directory.
  They are modelled for a directory that is literal in a pattern, with none of the
  characters below; \<^verbatim>\<open>.+\<close> is one or more characters other than a line terminator.
\<close>

definition regexLiteral :: "string \<Rightarrow> bool" where
  "regexLiteral s = list_all (\<lambda>c. c \<noteq> CHR 0x5C \<and> c \<notin> set ''^$.*+?()[]{}|'') s"

definition dotPlus :: "string \<Rightarrow> bool" where
  "dotPlus s = (s \<noteq> [] \<and> list_all (\<lambda>c. c \<noteq> CHR 0x0A \<and> c \<noteq> CHR 0x0D) s)"

text \<open>\<^verbatim>\<open>^<pre>.+$\<close> tested on a string.\<close>

definition testPrefixAny :: "string \<Rightarrow> string \<Rightarrow> bool" where
  "testPrefixAny pre s = (startsWith s pre \<and> dotPlus (drop (length pre) s))"

text \<open>\<^verbatim>\<open>^<pre>(.+)\.js$\<close> matched on a string: the captured group.\<close>

definition matchPrefixJs :: "string \<Rightarrow> string \<Rightarrow> string option" where
  "matchPrefixJs pre s =
     (let rest = drop (length pre) s; cap = take (length rest - 3) rest
      in if startsWith s pre \<and> endsWith rest ''.js'' \<and> dotPlus cap then Some cap else None)"

section \<open>The state of a build and its effects\<close>

text \<open>
  The disk is a map from paths to nodes. The console is the list of lines printed so
  far; \<^verbatim>\<open>writes\<close> records each \<^verbatim>\<open>writeFile\<close> that was carried out, \<^verbatim>\<open>urls\<close> is
  the module's registry of development servers and \<^verbatim>\<open>env\<close> is \<^verbatim>\<open>process.env\<close>.
\<close>

datatype node = FileNode string | DirNode

type_synonym fsys = "string \<rightharpoonup> node"

datatype stream = ConsoleLog | ConsoleWarn | ConsoleError | ConsoleInfo

datatype entry = Print stream string | PrintManifest stream string packageJson

record state =
  fs :: fsys
  console :: "entry list"
  writes :: "(string \<times> string) list"
  urls :: "string \<rightharpoonup> string"
  env :: "string \<rightharpoonup> string"

text \<open>
  What an \<^verbatim>\<open>async\<close> function can end with besides a value: an \<^verbatim>\<open>Error\<close> the builder
  throws itself, the rejection of a collaborator, a failed file operation, a property
  read on \<^verbatim>\<open>undefined\<close>, or a promise that never settles.
\<close>

datatype error =
    Error string
  | Rejected string
  | ENOENT string
  | EISDIR string
  | SyntaxError
  | TypeError
  | NeverSettles

type_synonym 'a io = "state \<Rightarrow> (error + 'a) \<times> state"

definition ret :: "'a \<Rightarrow> 'a io" where
  "ret x = (\<lambda>s. (Inr x, s))"

definition throw :: "error \<Rightarrow> 'a io" where
  "throw e = (\<lambda>s. (Inl e, s))"

definition bnd :: "'a io \<Rightarrow> ('a \<Rightarrow> 'b io) \<Rightarrow> 'b io" where
  "bnd m f = (\<lambda>s. case m s of (Inl e, s') \<Rightarrow> (Inl e, s') | (Inr x, s') \<Rightarrow> f x s')"

definition catch :: "'a io \<Rightarrow> (error \<Rightarrow> 'a io) \<Rightarrow> 'a io" where
  "catch m h = (\<lambda>s. case m s of (Inl e, s') \<Rightarrow> h e s' | (Inr x, s') \<Rightarrow> (Inr x, s'))"

definition whenever :: "bool \<Rightarrow> unit io \<Rightarrow> unit io" where
  "whenever b m = (if b then m else ret ())"

definition print :: "stream \<Rightarrow> string \<Rightarrow> unit io" where
  "print st msg = (\<lambda>s. (Inr (), s\<lparr>console := console s @ [Print st msg]\<rparr>))"

definition printManifest :: "stream \<Rightarrow> string \<Rightarrow> packageJson \<Rightarrow> unit io" where
  "printManifest st msg pkg = (\<lambda>s. (Inr (), s\<lparr>console := console s @ [PrintManifest st msg pkg]\<rparr>))"

definition readFile :: "string \<Rightarrow> string io" where
  "readFile p = (\<lambda>s. case fs s p of
       None \<Rightarrow> (Inl (ENOENT p), s)
     | Some DirNode \<Rightarrow> (Inl (EISDIR p), s)
     | Some (FileNode d) \<Rightarrow> (Inr d, s))"

definition writeFile :: "string \<Rightarrow> string \<Rightarrow> unit io" where
  "writeFile p d = (\<lambda>s. case fs s p of
       Some DirNode \<Rightarrow> (Inl (EISDIR p), s)
     | _ \<Rightarrow> (Inr (), s\<lparr>fs := (fs s)(p \<mapsto> FileNode d), writes := writes s @ [(p, d)]\<rparr>))"

definition unlinkFile :: "string \<Rightarrow> unit io" where
  "unlinkFile p = (\<lambda>s. case fs s p of
       None \<Rightarrow> (Inl (ENOENT p), s)
     | Some DirNode \<Rightarrow> (Inl (EISDIR p), s)
     | Some (FileNode d) \<Rightarrow> (Inr (), s\<lparr>fs := (fs s)(p := None)\<rparr>))"

definition pathExists :: "string \<Rightarrow> bool io" where
  "pathExists p = (\<lambda>s. (Inr (fs s p \<noteq> None), s))"

definition getEnv :: "string \<Rightarrow> string option io" where
  "getEnv k = (\<lambda>s. (Inr (env s k), s))"

text \<open>
  A collaborator that works on the disk: it leaves the disk as it likes and either
  resolves or rejects with a message.
\<close>

definition external :: "(fsys \<Rightarrow> string option \<times> fsys) \<Rightarrow> unit io" where
  "external run = (\<lambda>s. case run (fs s) of
       (None, d) \<Rightarrow> (Inr (), s\<lparr>fs := d\<rparr>)
     | (Some msg, d) \<Rightarrow> (Inl (Rejected msg), s\<lparr>fs := d\<rparr>))"

definition inspect :: "(fsys \<Rightarrow> 'a) \<Rightarrow> 'a io" where
  "inspect f = (\<lambda>s. (Inr (f (fs s)), s))"

text \<open>
  The collaborators: the helpers of \<^verbatim>\<open>./utils\<close> and the list of
  \<^verbatim>\<open>./legacy-versions\<close>, whose code is not part of the sources at hand, the functions of
  \<^verbatim>\<open>@now/build-utils\<close>, and what the platform provides (\<^verbatim>\<open>JSON\<close>, \<^verbatim>\<open>semver\<close>,
  \<^verbatim>\<open>url.parse\<close>, the location of the bridge and of the builder's own files, the working
  directory, the free port and the chunks a spawned command writes to its standard
  output). A \<^verbatim>\<open>glob\<close> lists each path it finds once, in the order of the object's keys.
\<close>

record collab =
  validateEntrypoint :: "string \<Rightarrow> string option"
  includeOnlyEntryDirectory :: "Files \<Rightarrow> string \<Rightarrow> Files"
  onlyStaticDirectory :: "Files \<Rightarrow> string \<Rightarrow> Files"
  excludeFiles :: "Files \<Rightarrow> (string \<Rightarrow> bool) \<Rightarrow> Files"
  normalizePackageJson :: "packageJson \<Rightarrow> packageJson"
  getNextConfig :: "string \<Rightarrow> string \<Rightarrow> fsys \<Rightarrow> string option"
  getWatchers :: "string \<Rightarrow> fsys \<Rightarrow> string list"
  nextLegacyVersions :: "string list"
  download :: "Files \<Rightarrow> string \<Rightarrow> fsys \<Rightarrow> string option \<times> fsys"
  glob :: "string \<Rightarrow> string \<Rightarrow> fsys \<Rightarrow> (string \<times> File) list"
  runNpmInstall :: "string \<Rightarrow> string list \<Rightarrow> fsys \<Rightarrow> string option \<times> fsys"
  runPackageJsonScript :: "string \<Rightarrow> string \<Rightarrow> fsys \<Rightarrow> string option \<times> fsys"
  JSON_parse :: "string \<Rightarrow> packageJson option"
  JSON_stringify :: "packageJson \<Rightarrow> string"
  semverLib :: semver
  url_pathname :: "string \<Rightarrow> string option"
  nodeBridge :: string
  builderDir :: string
  cwd :: string
  getPort :: nat
  execaStdout :: "string \<Rightarrow> string list \<Rightarrow> string \<Rightarrow> string list"

section \<open>Reading and writing the manifest\<close>

definition emptyManifest :: packageJson where
  "emptyManifest = \<lparr>dependencies = None, devDependencies = None, scripts = None\<rparr>"

text \<open>
  \<^verbatim>\<open>readPackageJson\<close>: a file that is missing or does not parse gives the empty object.
  (A file holding JSON that is not an object is outside the model.)
\<close>

definition readPackageJson :: "collab \<Rightarrow> string \<Rightarrow> packageJson io" where
  \<open>readPackageJson c entryPath =
     catch
       (bnd (readFile (path_join [entryPath, ''package.json'']))
          (\<lambda>txt. case JSON_parse c txt of None \<Rightarrow> throw SyntaxError | Some pkg \<Rightarrow> ret pkg))
       (\<lambda>err. bnd (print ConsoleLog ''package.json not found in entry'') (\<lambda>_. ret emptyManifest))\<close>

definition writePackageJson :: "collab \<Rightarrow> string \<Rightarrow> packageJson \<Rightarrow> unit io" where
  "writePackageJson c workPath packageJson =
     writeFile (path_join [workPath, ''package.json'']) (JSON_stringify c packageJson)"

definition writeNpmRc :: "string \<Rightarrow> string \<Rightarrow> unit io" where
  "writeNpmRc workPath token =
     writeFile (path_join [workPath, ''.npmrc'']) (''//registry.npmjs.org/:_authToken='' @ token)"

text \<open>
  Lines 263 to 294 of \<^verbatim>\<open>build\<close>. In legacy mode the lock files are removed (a failure is
  only logged) and the normalised manifest is written. Otherwise, when \<^verbatim>\<open>scripts\<close> is
  missing or its \<^verbatim>\<open>now-build\<close> is not a non-empty string, \<^verbatim>\<open>pkg.scripts\<close> becomes the
  default entry followed by the spread of the old scripts, and \<^verbatim>\<open>pkg\<close> is written. The
  result is \<^verbatim>\<open>pkg\<close> as the step leaves it.
\<close>

definition injectNowBuild :: "packageJson \<Rightarrow> packageJson" where
  "injectNowBuild pkg =
     pkg\<lparr>scripts := Some ([''now-build'' \<mapsto> ''next build''] ++
                             (case scripts pkg of None \<Rightarrow> Map.empty | Some m \<Rightarrow> m))\<rparr>"

definition normalizeManifest :: "collab \<Rightarrow> bool \<Rightarrow> string \<Rightarrow> packageJson \<Rightarrow> packageJson io" where
  \<open>normalizeManifest c isLegacy entryPath pkg =
     (if isLegacy then
        bnd (catch (unlinkFile (path_join [entryPath, ''yarn.lock'']))
               (\<lambda>err. print ConsoleLog ''no yarn.lock removed'')) (\<lambda>_.
        bnd (catch (unlinkFile (path_join [entryPath, ''package-lock.json'']))
               (\<lambda>err. print ConsoleLog ''no package-lock.json removed'')) (\<lambda>_.
        bnd (print ConsoleWarn ''WARNING: your application is being deployed in @now/next's legacy mode. http://err.sh/zeit/now-builders/now-next-legacy-mode'') (\<lambda>_.
        bnd (print ConsoleLog ''normalizing package.json'') (\<lambda>_.
        bnd (printManifest ConsoleLog ''normalized package.json result: '' (normalizePackageJson c pkg)) (\<lambda>_.
        bnd (writePackageJson c entryPath (normalizePackageJson c pkg)) (\<lambda>_.
        ret pkg))))))
      else if \<not> truthy (getProp (scripts pkg) ''now-build'') then
        bnd (print ConsoleWarn ''WARNING: "now-build" script not found. Adding '"now-build": "next build"' to "package.json" automatically'') (\<lambda>_.
        bnd (printManifest ConsoleLog ''normalized package.json result: '' (injectNowBuild pkg)) (\<lambda>_.
        bnd (writePackageJson c entryPath (injectNowBuild pkg)) (\<lambda>_.
        ret (injectNowBuild pkg))))
      else ret pkg)\<close>

text \<open>
  Lines 296 to 314: the credentials file is written when the token is set, the
  dependencies are installed, the \<^verbatim>\<open>now-build\<close> script runs, legacy mode installs again
  for production, and the credentials file is removed when the token is set.
\<close>

definition installAndBuild :: "collab \<Rightarrow> bool \<Rightarrow> string \<Rightarrow> unit io" where
  \<open>installAndBuild c isLegacy entryPath =
     bnd (getEnv ''NPM_AUTH_TOKEN'') (\<lambda>token.
     bnd (whenever (truthy token)
            (bnd (print ConsoleLog ''found NPM_AUTH_TOKEN in environment, creating .npmrc'') (\<lambda>_.
             writeNpmRc entryPath (case token of None \<Rightarrow> [] | Some t \<Rightarrow> t)))) (\<lambda>_.
     bnd (print ConsoleLog ''installing dependencies...'') (\<lambda>_.
     bnd (external (runNpmInstall c entryPath [''--prefer-offline''])) (\<lambda>_.
     bnd (print ConsoleLog ''running user script...'') (\<lambda>_.
     bnd (external (runPackageJsonScript c entryPath ''now-build'')) (\<lambda>_.
     bnd (whenever isLegacy
            (bnd (print ConsoleLog ''running npm install --production...'') (\<lambda>_.
             external (runNpmInstall c entryPath [''--prefer-offline'', ''--production''])))) (\<lambda>_.
     bnd (getEnv ''NPM_AUTH_TOKEN'') (\<lambda>token'.
     whenever (truthy token') (unlinkFile (path_join [entryPath, ''.npmrc'']))))))))))\<close>

section \<open>Packaging the pages\<close>

text \<open>\<^verbatim>\<open>page.replace(/\.js$/, '')\<close> and \<^verbatim>\<open>pathname.replace(/(^|\/)index$/, '')\<close>.\<close>

definition stripJs :: "string \<Rightarrow> string" where
  "stripJs page = (if endsWith page ''.js'' then take (length page - 3) page else page)"

definition stripIndex :: "string \<Rightarrow> string" where
  "stripIndex pathname =
     (if pathname = ''index'' then []
      else if endsWith pathname ''/index'' then take (length pathname - 6) pathname
      else pathname)"

text \<open>
  \<^verbatim>\<open>s.replace(pattern, replacement)\<close> with a string pattern: the first occurrence is
  replaced, and in the replacement \<^verbatim>\<open>$$\<close>, \<^verbatim>\<open>$&\<close>, \<^verbatim>\<open>$`\<close> and \<^verbatim>\<open>$'\<close> stand for a
  dollar, the match, the text before it and the text after it.
\<close>

fun findFirst :: "string \<Rightarrow> string \<Rightarrow> string \<Rightarrow> (string \<times> string) option" where
  "findFirst pat seen [] = (if pat = [] then Some (rev seen, []) else None)"
| "findFirst pat seen (c # cs) =
     (if startsWith (c # cs) pat then Some (rev seen, drop (length pat) (c # cs))
      else findFirst pat (c # seen) cs)"

fun getSubstitution :: "string \<Rightarrow> string \<Rightarrow> string \<Rightarrow> string \<Rightarrow> string" where
  "getSubstitution matched front rear [] = []"
| "getSubstitution matched front rear [c] = [c]"
| "getSubstitution matched front rear (c # d # ds) =
     (if c \<noteq> CHR ''$'' then c # getSubstitution matched front rear (d # ds)
      else if d = CHR ''$'' then CHR ''$'' # getSubstitution matched front rear ds
      else if d = CHR ''&'' then matched @ getSubstitution matched front rear ds
      else if d = CHR 0x60 then front @ getSubstitution matched front rear ds
      else if d = CHR 0x27 then rear @ getSubstitution matched front rear ds
      else c # getSubstitution matched front rear (d # ds))"

definition replaceFirst :: "string \<Rightarrow> string \<Rightarrow> string \<Rightarrow> string" where
  "replaceFirst s pat replacement =
     (case findFirst pat [] s of
        None \<Rightarrow> s
      | Some (front, rear) \<Rightarrow> front @ getSubstitution pat front rear replacement @ rear)"

text \<open>
  A deployable unit is what \<^verbatim>\<open>createLambda\<close> was given. A property of the file object
  can hold \<^verbatim>\<open>undefined\<close>, the \<open>None\<close> under \<open>Some\<close>.
\<close>

record Lambda =
  lambdaFiles :: "string \<rightharpoonup> File option"
  handler :: string
  runtime :: string

definition createLambda :: "(string \<rightharpoonup> File option) \<Rightarrow> string \<Rightarrow> string \<Rightarrow> Lambda" where
  "createLambda fls h r = \<lparr>lambdaFiles = fls, handler = h, runtime = r\<rparr>"

definition defined :: "Files \<Rightarrow> (string \<rightharpoonup> File option)" where
  "defined m = (\<lambda>k. map_option Some (m k))"

definition specialPages :: "string list" where
  "specialPages = [''_app.js'', ''_error.js'', ''_document.js'']"

text \<open>
  The key under which the unit of a page is stored, in both modes:
  \<^verbatim>\<open>path.join(entryDirectory, pathname)\<close> with \<^verbatim>\<open>pathname = page.replace(/\.js$/, '')\<close>.
\<close>

definition lambdaKey :: "string \<Rightarrow> string \<Rightarrow> string" where
  "lambdaKey entryDirectory page = path_join [entryDirectory, stripJs page]"

text \<open>The path a legacy launcher is given: \<^verbatim>\<open>`/${pathname.replace(/(^|\/)index$/, '')}`\<close>.\<close>

definition launcherPathname :: "string \<Rightarrow> string" where
  "launcherPathname page = ''/'' @ stripIndex (stripJs page)"

text \<open>
  The body of \<^verbatim>\<open>Promise.all(Object.keys(pages).map(async (page) => ...))\<close>, which both
  modes share but for the unit made: the three default pages are skipped, the others
  are announced, packaged and stored. The callbacks are taken one after the other, in
  the order of the keys.
\<close>

fun forEachPage ::
  "(string \<Rightarrow> File \<Rightarrow> Lambda) \<Rightarrow> string \<Rightarrow> (string \<times> File) list \<Rightarrow> (string \<rightharpoonup> Lambda)
     \<Rightarrow> (string \<rightharpoonup> Lambda) io"
where
  \<open>forEachPage mk entryDirectory [] lambdas = ret lambdas\<close>
| \<open>forEachPage mk entryDirectory ((page, f) # rest) lambdas =
     (if page \<in> set specialPages then forEachPage mk entryDirectory rest lambdas
      else
        bnd (print ConsoleLog (''Creating lambda for page: "'' @ page @ ''"...'')) (\<lambda>_.
        bnd (print ConsoleLog (''Created lambda for page: "'' @ page @ ''"'')) (\<lambda>_.
        forEachPage mk entryDirectory rest (lambdas(lambdaKey entryDirectory page \<mapsto> mk page f)))))\<close>

definition legacyPage ::
  "Files \<Rightarrow> Files \<Rightarrow> string \<Rightarrow> string \<Rightarrow> string \<Rightarrow> File \<Rightarrow> Lambda"
where
  "legacyPage nextFiles filesAfterBuild buildId launcherData page f =
     (let dir = ''.next/server/static/'' @ buildId @ ''/pages/'';
          launcher = replaceFirst launcherData ''PATHNAME_PLACEHOLDER'' (launcherPathname page);
          pageFiles = (Map.empty :: string \<rightharpoonup> File option)
            (dir @ ''_document.js'' \<mapsto> filesAfterBuild (dir @ ''_document.js''),
             dir @ ''_app.js'' \<mapsto> filesAfterBuild (dir @ ''_app.js''),
             dir @ ''_error.js'' \<mapsto> filesAfterBuild (dir @ ''_error.js''),
             dir @ page \<mapsto> filesAfterBuild (dir @ page))
      in createLambda
           ((defined nextFiles ++ pageFiles)(''now__launcher.js'' \<mapsto> Some (FileBlob launcher)))
           ''now__launcher.launcher'' ''nodejs8.10'')"

definition serverlessPage :: "Files \<Rightarrow> Files \<Rightarrow> string \<Rightarrow> File \<Rightarrow> Lambda" where
  "serverlessPage launcherFiles assets page f =
     createLambda ((defined (launcherFiles ++ assets))(''page.js'' \<mapsto> Some f))
       ''now__launcher.launcher'' ''nodejs8.10''"

text \<open>Lines 318 to 399: the units of legacy mode.\<close>

definition legacyLambdas :: "collab \<Rightarrow> string \<Rightarrow> string \<Rightarrow> (string \<rightharpoonup> Lambda) io" where
  \<open>legacyLambdas c entryPath entryDirectory =
     bnd (inspect (glob c ''**'' entryPath)) (\<lambda>filesAfterBuild.
     bnd (print ConsoleLog ''preparing lambda files...'') (\<lambda>_.
     bnd (catch (readFile (path_join [entryPath, ''.next'', ''BUILD_ID'']))
            (\<lambda>err.
               bnd (print ConsoleError ''BUILD_ID not found in ".next". The "package.json" "build" script did not run "next build"'') (\<lambda>_.
               throw (Error ''Missing BUILD_ID'')))) (\<lambda>buildId.
     bnd (inspect (glob c ''.next/*'' entryPath)) (\<lambda>dotNextRootFiles.
     bnd (inspect (glob c ''.next/server/*'' entryPath)) (\<lambda>dotNextServerRootFiles.
     bnd (inspect (glob c ''node_modules/**'' entryPath)) (\<lambda>nodeModulesAll.
     let nodeModules = excludeFiles c (map_of nodeModulesAll)
                         (\<lambda>file. startsWith file ''node_modules/.cache'');
         launcherFiles = [''now__bridge.js'' \<mapsto> FileFsRef (nodeBridge c)];
         nextFiles0 = nodeModules ++ map_of dotNextRootFiles ++ map_of dotNextServerRootFiles
                        ++ launcherFiles;
         nextFiles = (case map_of filesAfterBuild ''next.config.js'' of
                        None \<Rightarrow> nextFiles0
                      | Some cfg \<Rightarrow> nextFiles0(''next.config.js'' \<mapsto> cfg))
     in
     bnd (inspect (glob c ''**/*.js''
            (path_join [entryPath, ''.next'', ''server'', ''static'', buildId, ''pages'']))) (\<lambda>pages.
     bnd (readFile (path_join [builderDir c, ''legacy-launcher.js''])) (\<lambda>launcherData.
     forEachPage (legacyPage nextFiles (map_of filesAfterBuild) buildId launcherData)
       entryDirectory pages Map.empty))))))))\<close>

text \<open>Lines 400 to 463: the units of serverless mode.\<close>

fun printAssets :: "string list \<Rightarrow> unit io" where
  "printAssets [] = ret ()"
| "printAssets (assetFile # rest) =
     bnd (print ConsoleLog (CHR 0x09 # assetFile)) (\<lambda>_. printAssets rest)"

definition serverlessLambdas ::
  "collab \<Rightarrow> string \<Rightarrow> string \<Rightarrow> string \<Rightarrow> (string \<rightharpoonup> Lambda) io"
where
  \<open>serverlessLambdas c workPath entryPath entryDirectory =
     bnd (print ConsoleLog ''preparing lambda files...'') (\<lambda>_.
     let launcherFiles =
           [''now__bridge.js'' \<mapsto> FileFsRef (nodeBridge c),
            ''now__launcher.js'' \<mapsto> FileFsRef (path_join [builderDir c, ''launcher.js''])]
     in
     bnd (inspect (glob c ''**/*.js'' (path_join [entryPath, ''.next'', ''serverless'', ''pages'']))) (\<lambda>pages.
     if length (map fst pages) = 0 then
       bnd (inspect (getNextConfig c workPath entryPath)) (\<lambda>nextConfig.
       bnd (case nextConfig of
              None \<Rightarrow> ret ()
            | Some cfg \<Rightarrow>
                bnd (print ConsoleInfo ''Found next.config.js:'') (\<lambda>_.
                bnd (print ConsoleInfo cfg) (\<lambda>_.
                print ConsoleInfo []))) (\<lambda>_.
       throw (Error ''No serverless pages were built. https://err.sh/zeit/now-builders/now-next-no-serverless-pages-built'')))
     else
       bnd (inspect (glob c ''assets/**'' (path_join [entryPath, ''.next'', ''serverless'']))) (\<lambda>assets.
       bnd (whenever (length (map fst assets) > 0)
              (bnd (print ConsoleLog ''detected assets to be bundled with lambda:'') (\<lambda>_.
               printAssets (map fst assets)))) (\<lambda>_.
       forEachPage (serverlessPage launcherFiles (map_of assets)) entryDirectory pages Map.empty))))\<close>

text \<open>
  Lines 465 to 487: the static files, and the result of the build (its \<^verbatim>\<open>output\<close> is
  the field \<^verbatim>\<open>outputFiles\<close>).
\<close>

datatype outval = OutLambda Lambda | OutFile File

record route =
  src :: "string option"
  dest :: string

record buildResult =
  routes :: "route list"
  outputFiles :: "string \<rightharpoonup> outval"
  watch :: "string list"

definition mapValues :: "('a \<Rightarrow> 'b) \<Rightarrow> (string \<rightharpoonup> 'a) \<Rightarrow> (string \<rightharpoonup> 'b)" where
  "mapValues g m = (\<lambda>k. map_option g (m k))"

definition buildOutput ::
  "collab \<Rightarrow> Files \<Rightarrow> string \<Rightarrow> string \<Rightarrow> (string \<rightharpoonup> Lambda) \<Rightarrow> buildResult io"
where
  "buildOutput c fls entryPath entryDirectory lambdas =
     bnd (inspect (glob c ''**'' (path_join [entryPath, ''.next'', ''static'']))) (\<lambda>nextStaticFiles.
     let staticFiles =
           foldl (\<lambda>mappedFiles (file, v).
                    mappedFiles(path_join [entryDirectory, ''_next/static/'' @ file] \<mapsto> v))
             Map.empty nextStaticFiles;
         staticDirectoryFiles =
           onlyStaticDirectory c (includeOnlyEntryDirectory c fls entryDirectory) entryDirectory
     in
     bnd (inspect (getWatchers c (path_join [entryPath, ''.next'']))) (\<lambda>watchers.
     ret \<lparr>routes = [],
          outputFiles = mapValues OutLambda lambdas ++ mapValues OutFile staticFiles
                          ++ mapValues OutFile staticDirectoryFiles,
          watch = watchers\<rparr>))"

section \<open>The development server\<close>

fun showNat :: "nat \<Rightarrow> string" where
  "showNat n =
     (if n < 10 then [char_of (48 + n)] else showNat (n div 10) @ [char_of (48 + n mod 10)])"

definition includesStr :: "string \<Rightarrow> string \<Rightarrow> bool" where
  "includesStr s sub = (findFirst sub [] s \<noteq> None)"

definition builderName :: string where
  "builderName = ''[@now/next]''"

text \<open>
  \<^verbatim>\<open>startDevServer\<close>: the promise resolves with the URL when a chunk of the server's
  output holds the URL and the registry has no entry for the entry point yet; otherwise
  it never settles.
\<close>

definition startDevServer :: "collab \<Rightarrow> string \<Rightarrow> string \<Rightarrow> string io" where
  "startDevServer c entrypoint entrypointDir =
     (let url = ''http://localhost:'' @ showNat (getPort c);
          command = [''next'', ''dev'', entrypointDir, ''--port'', showNat (getPort c)]
      in
      bnd (print ConsoleLog (builderName @ '' Running `'' @ joinWith '' '' command @ ''`'')) (\<lambda>_.
      (\<lambda>s. if list_ex (\<lambda>chunk. includesStr chunk url) (execaStdout c ''npx'' command entrypointDir)
                \<and> \<not> truthy (urls s entrypoint)
             then (Inr url, s) else (Inl NeverSettles, s))))"

record meta =
  isDev :: bool
  requestPath :: "string option"

text \<open>Lines 206 to 235 of \<^verbatim>\<open>build\<close>.\<close>

definition buildDev :: "collab \<Rightarrow> string \<Rightarrow> string \<Rightarrow> meta \<Rightarrow> buildResult io" where
  "buildDev c entrypoint entrypointFull m =
     bnd (\<lambda>s. (Inr (), s\<lparr>env := (env s)(''__NEXT_BUILDER_EXPERIMENTAL_DEBUG'' \<mapsto> ''true'')\<rparr>)) (\<lambda>_.
     let entrypointDir = path_dirname entrypointFull in
     bnd (print ConsoleLog (builderName @ '' Requested '' @
            (case requestPath m of None \<Rightarrow> ''undefined'' | Some r \<Rightarrow> r))) (\<lambda>_.
     bnd (\<lambda>s. (Inr (urls s entrypoint), s)) (\<lambda>known.
     bnd (whenever (\<not> truthy known)
            (bnd (startDevServer c entrypoint entrypointDir) (\<lambda>url.
             bnd (\<lambda>s. (Inr (), s\<lparr>urls := (urls s)(entrypoint \<mapsto> url)\<rparr>)) (\<lambda>_.
             print ConsoleLog (builderName @ '' Development server for '' @ entrypointDir
                                 @ '' running at '' @ url))))) (\<lambda>_.
     bnd (\<lambda>s. (Inr (urls s entrypoint), s)) (\<lambda>base.
     ret \<lparr>routes =
            (case requestPath m of
               None \<Rightarrow> []
             | Some r \<Rightarrow>
                 [\<lparr>src = url_pathname c (''/'' @ r),
                   dest = (case base of None \<Rightarrow> ''undefined'' | Some u \<Rightarrow> u) @ ''/'' @ r\<rparr>]),
          outputFiles = Map.empty,
          watch = []\<rparr>)))))"

section \<open>The build\<close>

text \<open>
  Lines 237 to 314: the files are put on disk, the manifest is read and classified,
  normalised, and the project is installed and built. The result is the mode.
\<close>

definition buildPrepare :: "collab \<Rightarrow> Files \<Rightarrow> string \<Rightarrow> string \<Rightarrow> bool io" where
  \<open>buildPrepare c fls workPath entrypoint =
     (let entryDirectory = path_dirname entrypoint;
          entryPath = path_join [workPath, entryDirectory];
          dotNext = path_join [entryPath, ''.next'']
      in
      bnd (print ConsoleLog ''downloading user files...'') (\<lambda>_.
      bnd (external (download c fls workPath)) (\<lambda>_.
      bnd (pathExists dotNext) (\<lambda>stale.
      bnd (whenever stale (print ConsoleWarn ''WARNING: You should probably not upload the `.next` directory. See https://zeit.co/docs/v2/deployments/official-builders/next-js-now-next/ for more information.'')) (\<lambda>_.
      bnd (readPackageJson c entryPath) (\<lambda>pkg.
      if \<not> truthy (getNextVersion pkg) then
        throw (Error ''No Next.js version could be detected in "package.json". Make sure `"next"` is installed in "dependencies" or "devDependencies"'')
      else
        let isLegacy = isLegacyNext (semverLib c) (nextLegacyVersions c)
                         (case getNextVersion pkg of None \<Rightarrow> [] | Some v \<Rightarrow> v)
        in
        bnd (print ConsoleLog (''MODE: '' @ (if isLegacy then ''legacy'' else ''serverless''))) (\<lambda>_.
        bnd (normalizeManifest c isLegacy entryPath pkg) (\<lambda>_.
        bnd (installAndBuild c isLegacy entryPath) (\<lambda>_.
        ret isLegacy)))))))))\<close>

text \<open>Lines 316 to 487: the units of the mode, and the output.\<close>

definition buildPackage :: "collab \<Rightarrow> Files \<Rightarrow> string \<Rightarrow> string \<Rightarrow> bool \<Rightarrow> buildResult io" where
  "buildPackage c fls workPath entrypoint isLegacy =
     (let entryDirectory = path_dirname entrypoint;
          entryPath = path_join [workPath, entryDirectory]
      in
      bnd (if isLegacy then legacyLambdas c entryPath entryDirectory
           else serverlessLambdas c workPath entryPath entryDirectory) (\<lambda>lambdas.
      buildOutput c fls entryPath entryDirectory lambdas))"

definition build :: "collab \<Rightarrow> Files \<Rightarrow> string \<Rightarrow> string \<Rightarrow> meta \<Rightarrow> buildResult io" where
  "build c fls workPath entrypoint m =
     (case validateEntrypoint c entrypoint of
        Some msg \<Rightarrow> throw (Error msg)
      | None \<Rightarrow>
          (case fls entrypoint of
             None \<Rightarrow> throw TypeError
           | Some f \<Rightarrow>
               (if isDev m \<and> truthy (fsPath f) then
                  buildDev c entrypoint (case fsPath f of None \<Rightarrow> [] | Some p \<Rightarrow> p) m
                else
                  bnd (buildPrepare c fls workPath entrypoint) (\<lambda>isLegacy.
                  buildPackage c fls workPath entrypoint isLegacy))))"

section \<open>The cache and the serve predicate\<close>

definition prepareCache :: "collab \<Rightarrow> string \<Rightarrow> string \<Rightarrow> Files io" where
  "prepareCache c workPath entrypoint =
     bnd (print ConsoleLog ''preparing cache ...'') (\<lambda>_.
     let entryDirectory = path_dirname entrypoint;
         entryPath = path_join [workPath, entryDirectory]
     in
     bnd (readPackageJson c entryPath) (\<lambda>pkg.
     if \<not> truthy (getNextVersion pkg) then throw (Error ''Could not parse Next.js version'')
     else if isLegacyNext (semverLib c) (nextLegacyVersions c)
               (case getNextVersion pkg of None \<Rightarrow> [] | Some v \<Rightarrow> v)
       then ret Map.empty
     else
       bnd (print ConsoleLog ''producing cache file manifest ...'') (\<lambda>_.
       let cacheEntrypoint = path_relative (cwd c) workPath entryPath in
       bnd (inspect (glob c (path_join [cacheEntrypoint, ''node_modules/**'']) workPath)) (\<lambda>g1.
       bnd (inspect (glob c (path_join [cacheEntrypoint, ''.next/cache/**'']) workPath)) (\<lambda>g2.
       bnd (inspect (glob c (path_join [cacheEntrypoint, ''package-lock.json'']) workPath)) (\<lambda>g3.
       bnd (inspect (glob c (path_join [cacheEntrypoint, ''yarn.lock'']) workPath)) (\<lambda>g4.
       bnd (print ConsoleLog ''cache file manifest produced'') (\<lambda>_.
       ret (map_of g1 ++ map_of g2 ++ map_of g3 ++ map_of g4)))))))))"

text \<open>
  \<^verbatim>\<open>shouldServe\<close>. The result is \<open>None\<close> for an entry directory that is not literal
  in a regular expression, which the model leaves out.
\<close>

definition shouldServe :: "collab \<Rightarrow> string \<Rightarrow> Files \<Rightarrow> string \<Rightarrow> bool option" where
  "shouldServe c entrypoint fls reqPath =
     (let entry = path_dirname entrypoint;
          entryDirectory = (if entry = ''.'' then [] else entry @ ''/'')
      in
      if \<not> regexLiteral entryDirectory then None
      else if testPrefixAny (entryDirectory @ ''static/'') reqPath then Some True
      else
        let pages = includeOnlyEntryDirectory c fls (path_join [entryDirectory, ''pages'']) in
        (case matchPrefixJs (entryDirectory @ ''_next/static/unoptimized-build/pages/'') reqPath of
           Some requestedPage \<Rightarrow>
             (if requestedPage = ''_error'' \<or> requestedPage = ''_document'' \<or> requestedPage = ''_app''
                then Some True
              else Some (pageExists requestedPage pages entryDirectory))
         | None \<Rightarrow>
             (if testPrefixAny (entryDirectory @ ''_next'') reqPath then Some True
              else Some (pageExists
                           (if endsWith reqPath ''/'' then butlast reqPath else reqPath)
                           pages entryDirectory))))"

section \<open>Notions for stating the properties\<close>

text \<open>
  The page bundles a build finds on a disk: what the \<^verbatim>\<open>glob\<close> for \<^verbatim>\<open>**/*.js\<close> lists
  under the pages' directory of the mode (in legacy mode the directory named by the
  build identifier on that disk).
\<close>

definition discoveredPages :: "collab \<Rightarrow> string \<Rightarrow> string \<Rightarrow> bool \<Rightarrow> fsys \<Rightarrow> string list" where
  "discoveredPages c workPath entrypoint isLegacy d =
     (let entryPath = path_join [workPath, path_dirname entrypoint] in
      if isLegacy then
        (case d (path_join [entryPath, ''.next'', ''BUILD_ID'']) of
           Some (FileNode buildId) \<Rightarrow>
             map fst (glob c ''**/*.js''
               (path_join [entryPath, ''.next'', ''server'', ''static'', buildId, ''pages'']) d)
         | _ \<Rightarrow> [])
      else map fst (glob c ''**/*.js'' (path_join [entryPath, ''.next'', ''serverless'', ''pages'']) d))"

text \<open>
  A page bundle as a \<^verbatim>\<open>glob\<close> names it: a relative path to a \<^verbatim>\<open>.js\<close> file, each
  segment a proper name (the last one also without its extension).
\<close>

definition properName :: "string \<Rightarrow> bool" where
  "properName seg = (seg \<noteq> [] \<and> seg \<noteq> ''.'' \<and> seg \<noteq> ''..'')"

definition pageKeyOk :: "string \<Rightarrow> bool" where
  "pageKeyOk page = (endsWith page ''.js'' \<and> list_all properName (splitSlash (stripJs page)))"

definition isLambda :: "outval option \<Rightarrow> bool" where
  "isLambda v = (case v of Some (OutLambda l) \<Rightarrow> True | _ \<Rightarrow> False)"

section \<open>A fragment of semver, for the examples\<close>

text \<open>
  The examples are evaluated with the part of \<^verbatim>\<open>semver\<close> that covers plain versions
  \<^verbatim>\<open>MAJOR.MINOR.PATCH\<close> and ranges of one comparator on such a version, with the
  operators \<^verbatim>\<open>=\<close>, \<^verbatim>\<open><\<close>, \<^verbatim>\<open><=\<close>, \<^verbatim>\<open>>\<close>, \<^verbatim>\<open>>=\<close>, \<^verbatim>\<open>^\<close> and \<^verbatim>\<open>~\<close>. It is used on
  such strings, and on strings that no range of \<^verbatim>\<open>semver\<close> can be, only.
\<close>

fun splitDot :: "string \<Rightarrow> string list" where
  "splitDot [] = [[]]"
| "splitDot (c # cs) =
     (if c = CHR ''.'' then [] # splitDot cs
      else (case splitDot cs of [] \<Rightarrow> [[c]] | w # ws \<Rightarrow> (c # w) # ws))"

definition isDigit :: "char \<Rightarrow> bool" where
  "isDigit c = (48 \<le> (of_char c :: nat) \<and> (of_char c :: nat) \<le> 57)"

text \<open>
  A numeric identifier: digits with no leading zero, and no more than
  \<^verbatim>\<open>Number.MAX_SAFE_INTEGER\<close>, which is \<^verbatim>\<open>9007199254740991\<close>.
\<close>

fun digitsLe :: "string \<Rightarrow> string \<Rightarrow> bool" where
  "digitsLe (a # xs) (b # ys) =
     ((of_char a :: nat) < of_char b \<or> (a = b \<and> digitsLe xs ys))"
| "digitsLe [] [] = True"
| "digitsLe xs ys = False"

definition safeInteger :: "string \<Rightarrow> bool" where
  "safeInteger s = (length s < 16 \<or> (length s = 16 \<and> digitsLe s ''9007199254740991''))"

definition parseNumeric :: "string \<Rightarrow> nat option" where
  "parseNumeric s =
     (if s = [] \<or> \<not> list_all isDigit s \<or> (1 < length s \<and> hd s = CHR ''0'')
         \<or> \<not> safeInteger s then None
      else Some (foldl (\<lambda>a c. 10 * a + (of_char c - 48)) 0 s))"

definition parseVersion :: "string \<Rightarrow> (nat \<times> nat \<times> nat) option" where
  "parseVersion s =
     (case map parseNumeric (splitDot s) of
        [Some major, Some minor, Some patch] \<Rightarrow> Some (major, minor, patch)
      | _ \<Rightarrow> None)"

fun compareVersions :: "nat \<times> nat \<times> nat \<Rightarrow> nat \<times> nat \<times> nat \<Rightarrow> int" where
  "compareVersions (a, b, c) (x, y, z) =
     (if a < x then - 1 else if x < a then 1
      else if b < y then - 1 else if y < b then 1
      else if c < z then - 1 else if z < c then 1 else 0)"

fun caretBound :: "nat \<times> nat \<times> nat \<Rightarrow> nat \<times> nat \<times> nat" where
  "caretBound (major, minor, patch) =
     (if 0 < major then (major + 1, 0, 0)
      else if 0 < minor then (0, minor + 1, 0)
      else (0, 0, patch + 1))"

fun tildeBound :: "nat \<times> nat \<times> nat \<Rightarrow> nat \<times> nat \<times> nat" where
  "tildeBound (major, minor, patch) = (major, minor + 1, 0)"

definition comparatorTest :: "string \<Rightarrow> nat \<times> nat \<times> nat \<Rightarrow> string \<Rightarrow> bool" where
  "comparatorTest operator v version =
     (case parseVersion version of
        None \<Rightarrow> False
      | Some w \<Rightarrow>
          (if operator = ''^'' then compareVersions v w \<le> 0 \<and> compareVersions w (caretBound v) < 0
           else if operator = ''~'' then compareVersions v w \<le> 0 \<and> compareVersions w (tildeBound v) < 0
           else if operator = ''>='' then compareVersions v w \<le> 0
           else if operator = ''<='' then compareVersions w v \<le> 0
           else if operator = ''>'' then compareVersions v w < 0
           else if operator = ''<'' then compareVersions w v < 0
           else compareVersions v w = 0))"

definition fragmentRange :: "string \<Rightarrow> (string \<Rightarrow> bool) option" where
  "fragmentRange r =
     (let operator = takeWhile (\<lambda>c. c \<in> set ''^~<>='') r;
          body = dropWhile (\<lambda>c. c \<in> set ''^~<>='') r
      in if operator \<in> set [[], ''='', ''^'', ''~'', ''>='', ''<='', ''>'', ''<''] then
           (case parseVersion body of
              None \<Rightarrow> None
            | Some v \<Rightarrow> Some (comparatorTest operator v))
         else None)"

definition fragmentCompare :: "string \<Rightarrow> string \<Rightarrow> int" where
  "fragmentCompare a b =
     (case (parseVersion a, parseVersion b) of
        (Some v, Some w) \<Rightarrow> compareVersions v w
      | _ \<Rightarrow> 0)"

definition semverFragment :: semver where
  "semverFragment = \<lparr>semver_Range = fragmentRange, semver_compare = fragmentCompare\<rparr>"

section \<open>A project and its collaborators, for the examples\<close>

text \<open>
  The examples run the builder on a small project in \<^verbatim>\<open>/work\<close>. The collaborators
  behave as those of the platform do on it: a \<^verbatim>\<open>glob\<close> looks among the paths the
  project can have, the manifest is parsed and printed for the properties it can have
  here, and the \<^verbatim>\<open>now-build\<close> script writes the artifacts of the mode its command asks
  for.
\<close>

definition manifest :: "string \<Rightarrow> (string \<rightharpoonup> string) option \<Rightarrow> packageJson" where
  "manifest v sc = \<lparr>dependencies = Some [''next'' \<mapsto> v], devDependencies = None, scripts = sc\<rparr>"

definition legacyCommand :: string where
  "legacyCommand = ''NODE_OPTIONS=--max_old_space_size=3000 next build --lambdas''"

definition exampleStringify :: "packageJson \<Rightarrow> string" where
  \<open>exampleStringify pkg =
     ''{"dependencies":{"next":"'' @ (case getProp (dependencies pkg) ''next'' of None \<Rightarrow> [] | Some v \<Rightarrow> v)
       @ ''"}''
       @ (case getProp (scripts pkg) ''now-build'' of
            None \<Rightarrow> []
          | Some b \<Rightarrow> '',"scripts":{"now-build":"'' @ b @ ''"}'')
       @ ''}''\<close>

definition knownManifests :: "packageJson list" where
  "knownManifests =
     concat (map (\<lambda>v. [manifest v None,
                         manifest v (Some [''now-build'' \<mapsto> ''next build'']),
                         manifest v (Some [''now-build'' \<mapsto> []]),
                         manifest v (Some [''now-build'' \<mapsto> legacyCommand])])
               [''^8.0.0'', ''^7.0.0'', ''github:zeit/next.js''])"

definition exampleParse :: "string \<Rightarrow> packageJson option" where
  "exampleParse txt = map_of (map (\<lambda>pkg. (exampleStringify pkg, pkg)) knownManifests) txt"

definition knownPaths :: "string list" where
  "knownPaths =
     [''/work/package.json'', ''/work/.npmrc'', ''/work/next.config.js'',
      ''/work/pages/index.js'', ''/work/pages/about.js'',
      ''/work/node_modules/next/package.json'',
      ''/work/.next/BUILD_ID'',
      ''/work/.next/static/runtime/main.js'',
      ''/work/.next/serverless/pages/index.js'',
      ''/work/.next/serverless/pages/about.js'',
      ''/work/.next/serverless/pages/blog/index.js'',
      ''/work/.next/serverless/pages/_error.js'',
      ''/work/.next/server/static/abc123/pages/index.js'',
      ''/work/.next/server/static/abc123/pages/about.js'',
      ''/work/.next/server/static/abc123/pages/blog/index.js'',
      ''/work/.next/server/static/abc123/pages/_app.js'',
      ''/work/.next/server/static/abc123/pages/_document.js'',
      ''/work/.next/server/static/abc123/pages/_error.js'']"

definition globMatches :: "string \<Rightarrow> string \<Rightarrow> bool" where
  "globMatches pat rel =
     (if pat = ''**'' then True
      else if pat = ''**/*.js'' then endsWith rel ''.js''
      else if endsWith pat ''/**'' then startsWith rel (take (length pat - 2) pat)
      else if endsWith pat ''/*'' then
        startsWith rel (take (length pat - 1) pat)
          \<and> CHR ''/'' \<notin> set (drop (length pat - 1) rel)
      else rel = pat)"

definition exampleGlob :: "string \<Rightarrow> string \<Rightarrow> fsys \<Rightarrow> (string \<times> File) list" where
  "exampleGlob pat root d =
     map (\<lambda>p. (drop (Suc (length root)) p, FileFsRef p))
       (filter (\<lambda>p. d p \<noteq> None \<and> d p \<noteq> Some DirNode \<and> startsWith p (root @ ''/'')
                  \<and> globMatches pat (drop (Suc (length root)) p))
          knownPaths)"

definition serverlessArtifacts :: fsys where
  "serverlessArtifacts =
     [''/work/.next/static/runtime/main.js'' \<mapsto> FileNode ''main'',
      ''/work/.next/serverless/pages/index.js'' \<mapsto> FileNode ''index'',
      ''/work/.next/serverless/pages/about.js'' \<mapsto> FileNode ''about'',
      ''/work/.next/serverless/pages/blog/index.js'' \<mapsto> FileNode ''blog'',
      ''/work/.next/serverless/pages/_error.js'' \<mapsto> FileNode ''error'']"

definition legacyArtifacts :: fsys where
  "legacyArtifacts =
     [''/work/.next/BUILD_ID'' \<mapsto> FileNode ''abc123'',
      ''/work/.next/static/runtime/main.js'' \<mapsto> FileNode ''main'',
      ''/work/.next/server/static/abc123/pages/index.js'' \<mapsto> FileNode ''index'',
      ''/work/.next/server/static/abc123/pages/about.js'' \<mapsto> FileNode ''about'',
      ''/work/.next/server/static/abc123/pages/blog/index.js'' \<mapsto> FileNode ''blog'',
      ''/work/.next/server/static/abc123/pages/_app.js'' \<mapsto> FileNode ''app'',
      ''/work/.next/server/static/abc123/pages/_document.js'' \<mapsto> FileNode ''document'',
      ''/work/.next/server/static/abc123/pages/_error.js'' \<mapsto> FileNode ''error'']"

text \<open>
  The script of a working project, and the script of a project whose \<^verbatim>\<open>now-build\<close>
  does not run the compiler.
\<close>

definition nextBuild :: "string \<Rightarrow> string \<Rightarrow> fsys \<Rightarrow> string option \<times> fsys" where
  "nextBuild entryPath script d =
     (case d (entryPath @ ''/package.json'') of
        Some (FileNode txt) \<Rightarrow>
          (if includesStr txt ''--lambdas'' then (None, d ++ legacyArtifacts)
           else if includesStr txt ''next build'' then (None, d ++ serverlessArtifacts)
           else (None, d))
      | _ \<Rightarrow> (None, d))"

definition idleScript :: "string \<Rightarrow> string \<Rightarrow> fsys \<Rightarrow> string option \<times> fsys" where
  "idleScript entryPath script d = (None, d)"

definition npmInstall :: "string \<Rightarrow> string list \<Rightarrow> fsys \<Rightarrow> string option \<times> fsys" where
  "npmInstall entryPath args d =
     (None, d(entryPath @ ''/node_modules/next/package.json'' \<mapsto> FileNode ''{}''))"

definition npmInstallFails :: "string \<Rightarrow> string list \<Rightarrow> fsys \<Rightarrow> string option \<times> fsys" where
  "npmInstallFails entryPath args d = (Some ''npm ERR! code E404'', d)"

definition exampleWorld ::
  "(string \<Rightarrow> string list \<Rightarrow> fsys \<Rightarrow> string option \<times> fsys)
     \<Rightarrow> (string \<Rightarrow> string \<Rightarrow> fsys \<Rightarrow> string option \<times> fsys) \<Rightarrow> string \<Rightarrow> collab"
where
  \<open>exampleWorld install script manifestText =
     \<lparr>validateEntrypoint =
        (\<lambda>e. if endsWith e ''package.json'' \<or> endsWith e ''next.config.js'' then None
              else Some ''Specified "src" for "@now/next" has to be "package.json" or "next.config.js"''),
      includeOnlyEntryDirectory =
        (\<lambda>fls dir. if dir = ''.'' then fls else (\<lambda>k. if startsWith k dir then fls k else None)),
      onlyStaticDirectory =
        (\<lambda>fls dir. (\<lambda>k. if startsWith k (path_join [dir, ''static'']) then fls k else None)),
      excludeFiles = (\<lambda>fls matcher. (\<lambda>k. if matcher k then None else fls k)),
      normalizePackageJson =
        (\<lambda>pkg. pkg\<lparr>scripts := Some ((case scripts pkg of None \<Rightarrow> Map.empty | Some m \<Rightarrow> m)
                                      (''now-build'' \<mapsto> legacyCommand))\<rparr>),
      getNextConfig =
        (\<lambda>workPath entryPath d.
           case d (entryPath @ ''/next.config.js'') of
             Some (FileNode txt) \<Rightarrow> Some txt
           | _ \<Rightarrow> (case d (workPath @ ''/next.config.js'') of
                     Some (FileNode txt) \<Rightarrow> Some txt
                   | _ \<Rightarrow> None)),
      getWatchers = (\<lambda>dotNext d. []),
      nextLegacyVersions = [''6.1.2'', ''7.0.0'', ''7.0.1'', ''7.0.2''],
      download =
        (\<lambda>fls workPath d.
           (None, d(workPath @ ''/package.json'' \<mapsto> FileNode manifestText,
                    workPath @ ''/pages/index.js'' \<mapsto> FileNode ''index'',
                    workPath @ ''/pages/about.js'' \<mapsto> FileNode ''about''))),
      glob = exampleGlob,
      runNpmInstall = install,
      runPackageJsonScript = script,
      JSON_parse = exampleParse,
      JSON_stringify = exampleStringify,
      semverLib = semverFragment,
      url_pathname = (\<lambda>u. Some (takeWhile (\<lambda>c. c \<noteq> CHR ''?'' \<and> c \<noteq> CHR ''#'') u)),
      nodeBridge = ''/builder/node_modules/@now/node-bridge/bridge.js'',
      builderDir = ''/builder/dist'',
      cwd = ''/'',
      getPort = 5000,
      execaStdout = (\<lambda>cmd args dir. [''ready on http://localhost:5000''])\<rparr>\<close>

definition exampleFiles :: Files where
  "exampleFiles =
     [''package.json'' \<mapsto> FileRef ''a1'', ''pages/index.js'' \<mapsto> FileRef ''b2'',
      ''pages/about.js'' \<mapsto> FileRef ''c3'']"

definition initialState :: "string option \<Rightarrow> state" where
  "initialState token =
     \<lparr>fs = [''/builder/dist/legacy-launcher.js'' \<mapsto> FileNode ''serve(PATHNAME_PLACEHOLDER)''],
      console = [],
      writes = [],
      urls = Map.empty,
      env = (case token of None \<Rightarrow> Map.empty | Some t \<Rightarrow> [''NPM_AUTH_TOKEN'' \<mapsto> t])\<rparr>"

definition production :: meta where
  "production = \<lparr>isDev = False, requestPath = None\<rparr>"

text \<open>The manifests of a serverless project, a legacy project and one with a git URL.\<close>

definition serverlessText :: string where
  "serverlessText = exampleStringify (manifest ''^8.0.0'' None)"

definition legacyText :: string where
  "legacyText = exampleStringify (manifest ''^7.0.0'' None)"

definition gitText :: string where
  "gitText = exampleStringify (manifest ''github:zeit/next.js'' None)"

definition succeeded :: "(error + 'a) \<Rightarrow> bool" where
  "succeeded x = (case x of Inl e \<Rightarrow> False | Inr v \<Rightarrow> True)"

definition twoPages :: Files where
  "twoPages = [''pages/index.js'' \<mapsto> FileRef ''b2'', ''pages/about.js'' \<mapsto> FileRef ''c3'']"

definition lineFree :: "string \<Rightarrow> bool" where
  "lineFree p = list_all (\<lambda>ch. ch \<noteq> CHR 0x0A \<and> ch \<noteq> CHR 0x0D) p"

text \<open>A step that leaves the environment, or the disk, as it found it.\<close>

definition keepsEnv :: "'a io \<Rightarrow> bool" where
  "keepsEnv m = (\<forall>s. env (snd (m s)) = env s)"

definition keepsFs :: "'a io \<Rightarrow> bool" where
  "keepsFs m = (\<forall>s. fs (snd (m s)) = fs s)"

text \<open>Manifests with no script, with the default script, and with an empty script.\<close>

definition plainManifest :: packageJson where
  "plainManifest = manifest ''^8.0.0'' None"

definition scriptedManifest :: packageJson where
  "scriptedManifest = manifest ''^8.0.0'' (Some [''now-build'' \<mapsto> ''next build''])"

definition emptyScriptManifest :: packageJson where
  "emptyScriptManifest = manifest ''^8.0.0'' (Some [''now-build'' \<mapsto> []])"

text \<open>The framework version that \<^verbatim>\<open>getNextVersion\<close> finds in the manifest on disk.\<close>

definition detectedVersion :: "collab \<Rightarrow> string \<Rightarrow> state \<Rightarrow> string option" where
  "detectedVersion c entryPath s =
     (case fst (readPackageJson c entryPath s) of Inl e \<Rightarrow> None | Inr pkg \<Rightarrow> getNextVersion pkg)"

text \<open>A \<^verbatim>\<open>now-build\<close> script that compiles the project and then removes the manifest.\<close>

definition cleaningScript :: "string \<Rightarrow> string \<Rightarrow> fsys \<Rightarrow> string option \<times> fsys" where
  "cleaningScript entryPath script d =
     (case nextBuild entryPath script d of
        (r, d') \<Rightarrow> (r, d'(entryPath @ ''/package.json'' := None)))"

text \<open>A disk that holds an installed legacy project.\<close>

definition legacyProject :: state where
  "legacyProject =
     \<lparr>fs = [''/work/package.json'' \<mapsto> FileNode legacyText,
             ''/work/yarn.lock'' \<mapsto> FileNode ''# yarn lockfile v1'',
             ''/work/node_modules'' \<mapsto> DirNode,
             ''/work/node_modules/next/package.json'' \<mapsto> FileNode ''{}''],
      console = [],
      writes = [],
      urls = Map.empty,
      env = Map.empty\<rparr>"

text \<open>
  What the outcome of a build holds under a key of its output (nothing, when the build
  failed), and whether an entry is there at all.
\<close>

definition outputAt :: "(error + buildResult) \<times> state \<Rightarrow> string \<Rightarrow> outval option" where
  "outputAt res k = (case fst res of Inl e \<Rightarrow> None | Inr r \<Rightarrow> outputFiles r k)"

definition present :: "'a option \<Rightarrow> bool" where
  "present v = (case v of None \<Rightarrow> False | Some x \<Rightarrow> True)"

text \<open>A \<^verbatim>\<open>now-build\<close> script that fails, and a project that has a \<^verbatim>\<open>next.config.js\<close>.\<close>

definition failingScript :: "string \<Rightarrow> string \<Rightarrow> fsys \<Rightarrow> string option \<times> fsys" where
  "failingScript entryPath script d = (Some ''Exited with 1'', d)"

definition configuredState :: state where
  "configuredState =
     (initialState None)\<lparr>fs := (fs (initialState None))
        (''/work/next.config.js'' \<mapsto> FileNode ''module.exports = {}'')\<rparr>"

text \<open>
  A step after whose success a property holds of the environment it started in and the
  state it ends in.
\<close>

definition ensures :: "'a io \<Rightarrow> ((string \<rightharpoonup> string) \<Rightarrow> state \<Rightarrow> bool) \<Rightarrow> bool" where
  "ensures m Q = (\<forall>s r s'. m s = (Inr r, s') \<longrightarrow> Q (env s) s')"

section \<open>The version classifier\<close>

lemma maxSatisfying_forEach_None:
  "maxSatisfying_forEach cmp test vs mx = None \<longleftrightarrow> mx = None \<and> \<not> list_ex test vs"
  by (induction vs arbitrary: mx) (auto split: option.splits)

lemma isLegacyNext_range:
  assumes "v \<noteq> ''canary''" "v \<noteq> ''latest''" "v \<notin> set legacy"
  shows "isLegacyNext sv legacy v = (\<exists>x\<in>set legacy. satisfies sv x v)"
proof (cases "semver_Range sv v")
  case None
  then show ?thesis using assms by (simp add: isLegacyNext_def maxSatisfying_def satisfies_def)
next
  case (Some test)
  have "(maxSatisfying_forEach (semver_compare sv) test legacy None = None) = (\<not> list_ex test legacy)"
    by (simp add: maxSatisfying_forEach_None)
  then show ?thesis
    using assms Some
    by (auto simp: isLegacyNext_def maxSatisfying_def satisfies_def list_ex_iff
          split: option.splits)
qed

text \<open>
  C4. The classifier answers modern for the tags \<^verbatim>\<open>latest\<close> and \<^verbatim>\<open>canary\<close>, legacy for
  every string of the legacy list, and for any other requirement legacy exactly when
  some version of the list satisfies it as a range. The list of \<^verbatim>\<open>./legacy-versions\<close>
  is any list of versions, none of them one of the two tags.
\<close>

theorem isLegacyNext_classifies:
  assumes "''canary'' \<notin> set legacy" and "''latest'' \<notin> set legacy"
  shows "isLegacyNext sv legacy ''latest'' = False
       \<and> isLegacyNext sv legacy ''canary'' = False
       \<and> (\<forall>v\<in>set legacy. isLegacyNext sv legacy v = True)
       \<and> (\<forall>v. v \<notin> set legacy \<and> v \<noteq> ''latest'' \<and> v \<noteq> ''canary''
              \<longrightarrow> isLegacyNext sv legacy v = (\<exists>x\<in>set legacy. satisfies sv x v))"
proof -
  have tags: "isLegacyNext sv legacy ''latest'' = False" "isLegacyNext sv legacy ''canary'' = False"
    by (simp_all add: isLegacyNext_def)
  have listed: "\<forall>v\<in>set legacy. isLegacyNext sv legacy v = True"
    using assms by (auto simp: isLegacyNext_def)
  have others: "\<forall>v. v \<notin> set legacy \<and> v \<noteq> ''latest'' \<and> v \<noteq> ''canary''
      \<longrightarrow> isLegacyNext sv legacy v = (\<exists>x\<in>set legacy. satisfies sv x v)"
    using isLegacyNext_range by blast
  from tags listed others show ?thesis by blast
qed

lemmas fragment_defs = semverFragment_def fragmentRange_def fragmentCompare_def parseVersion_def
  parseNumeric_def isDigit_def safeInteger_def comparatorTest_def satisfies_def maxSatisfying_def

theorem isLegacyNext_classifies_witness:
  "''canary'' \<notin> set [''6.1.2'', ''7.0.0'', ''7.0.1'', ''7.0.2'']
   \<and> ''latest'' \<notin> set [''6.1.2'', ''7.0.0'', ''7.0.1'', ''7.0.2'']
   \<and> isLegacyNext semverFragment [''6.1.2'', ''7.0.0'', ''7.0.1'', ''7.0.2''] ''latest'' = False
   \<and> isLegacyNext semverFragment [''6.1.2'', ''7.0.0'', ''7.0.1'', ''7.0.2''] ''7.0.1'' = True
   \<and> satisfies semverFragment ''7.0.2'' ''^7.0.0''
   \<and> isLegacyNext semverFragment [''6.1.2'', ''7.0.0'', ''7.0.1'', ''7.0.2''] ''^7.0.0'' = True
   \<and> \<not> list_ex (\<lambda>x. satisfies semverFragment x ''^8.0.0'') [''6.1.2'', ''7.0.0'', ''7.0.1'', ''7.0.2'']
   \<and> isLegacyNext semverFragment [''6.1.2'', ''7.0.0'', ''7.0.1'', ''7.0.2''] ''^8.0.0'' = False"
proof -
  have tags: "''canary'' \<notin> set [''6.1.2'', ''7.0.0'', ''7.0.1'', ''7.0.2'']"
             "''latest'' \<notin> set [''6.1.2'', ''7.0.0'', ''7.0.1'', ''7.0.2'']"
    by simp_all
  have sat: "satisfies semverFragment ''7.0.2'' ''^7.0.0''"
    by (simp add: fragment_defs)
  have unsat: "\<not> list_ex (\<lambda>x. satisfies semverFragment x ''^8.0.0'') [''6.1.2'', ''7.0.0'', ''7.0.1'', ''7.0.2'']"
    by (simp add: fragment_defs)
  from isLegacyNext_classifies [OF tags, of semverFragment] sat unsat tags
  show ?thesis by (auto simp: list_ex_iff)
qed

section \<open>The serve predicate\<close>

lemma inPages_iff:
  "inPages pages entry names = (\<exists>n\<in>set names. (if entry \<noteq> [] then entry @ ''/'' else []) @ ''pages/'' @ n \<in> dom pages)"
  by (induction names) (auto simp: dom_def)

lemma append_eq_literal:
  "(xs @ ys = zs) = (length ys \<le> length zs \<and> xs = take (length zs - length ys) zs
      \<and> ys = drop (length zs - length ys) zs)"
  by (metis append_eq_conv_conj append_take_drop_id diff_add_inverse2 length_append length_drop le_add2)

lemma pageExists_two:
  assumes "dom fls = {''pages/index.js'', ''pages/about.js''}"
  shows "pageExists name fls [] = (name \<in> {[], ''/'', ''index'', ''about''})"
  by (auto simp: pageExists_def inPages_iff assms append_eq_literal)

lemma path_join_pages: "path_join [[], ''pages''] = ''pages''"
  by (simp add: path_join_def path_normalize_def normalizeString_def)

lemma scoped_pages:
  assumes "dom fls = {''pages/index.js'', ''pages/about.js''}"
      and "\<forall>k. startsWith k ''pages/'' \<longrightarrow> includeOnlyEntryDirectory c fls ''pages'' k = fls k"
      and "\<forall>k. fls k = None \<longrightarrow> includeOnlyEntryDirectory c fls ''pages'' k = None"
  shows "includeOnlyEntryDirectory c fls ''pages'' = fls"
proof
  fix k
  show "includeOnlyEntryDirectory c fls ''pages'' k = fls k"
  proof (cases "fls k")
    case None
    with assms(3) show ?thesis by metis
  next
    case (Some f)
    then have "k \<in> dom fls" by blast
    then have "k \<in> {''pages/index.js'', ''pages/about.js''}" unfolding assms(1) .
    then have "k = ''pages/index.js'' \<or> k = ''pages/about.js''" by blast
    then have "startsWith k ''pages/''" by (auto simp: startsWith_def)
    with assms(2) show ?thesis by blast
  qed
qed

lemma startsWith_appendD: "startsWith r (a @ b) \<Longrightarrow> startsWith r a"
proof -
  assume "startsWith r (a @ b)"
  then have "take (length a + length b) r = a @ b" by (simp add: startsWith_def)
  then have "take (length a) (take (length a + length b) r) = take (length a) (a @ b)" by simp
  then show ?thesis by (simp add: startsWith_def min_def)
qed

lemma matchPrefixJs_None: "\<not> startsWith s pre \<Longrightarrow> matchPrefixJs pre s = None"
  by (simp add: matchPrefixJs_def Let_def)

lemma testPrefixAny_False: "\<not> startsWith s pre \<Longrightarrow> testPrefixAny pre s = False"
  by (simp add: testPrefixAny_def)

lemma regexLiteral_Nil: "regexLiteral []"
  by (simp add: regexLiteral_def)

lemma serve_plain:
  assumes d: "path_dirname entrypoint = ''.''"
      and inc: "includeOnlyEntryDirectory c fls ''pages'' = fls"
      and np: "\<not> startsWith r ''static/''" "\<not> startsWith r ''_next''"
  shows "shouldServe c entrypoint fls r = Some (pageExists (if endsWith r ''/'' then butlast r else r) fls [])"
proof -
  have "\<not> startsWith r (''_next'' @ ''/static/unoptimized-build/pages/'')"
    using np(2) startsWith_appendD by blast
  then have m: "matchPrefixJs ''_next/static/unoptimized-build/pages/'' r = None"
    by (simp add: matchPrefixJs_None)
  show ?thesis
    unfolding shouldServe_def
    by (simp add: d inc m regexLiteral_Nil path_join_pages testPrefixAny_False[OF np(1)]
          testPrefixAny_False[OF np(2)] Let_def)
qed

lemma serve_next:
  assumes d: "path_dirname entrypoint = ''.''"
      and inc: "includeOnlyEntryDirectory c fls ''pages'' = fls"
      and nx: "testPrefixAny ''_next'' r"
      and ns: "\<not> startsWith r ''static/''"
  shows "shouldServe c entrypoint fls r =
     Some (case matchPrefixJs ''_next/static/unoptimized-build/pages/'' r of
             None \<Rightarrow> True
           | Some page \<Rightarrow> page \<in> {''_error'', ''_document'', ''_app''} \<or> pageExists page fls [])"
  unfolding shouldServe_def
  by (simp add: d inc regexLiteral_Nil path_join_pages testPrefixAny_False[OF ns] nx Let_def
        split: option.splits)

lemma matchPrefixJs_dotPlus: "matchPrefixJs pre s = Some page \<Longrightarrow> page \<noteq> []"
  by (auto simp: matchPrefixJs_def Let_def dotPlus_def split: if_splits)

text \<open>
  C7, as the code has it. With the entry point in the root directory and exactly the
  pages \<^verbatim>\<open>pages/index.js\<close> and \<^verbatim>\<open>pages/about.js\<close> among the files (scoping the files
  to \<^verbatim>\<open>pages\<close> keeps them), the predicate holds for the empty path, \<^verbatim>\<open>/\<close>,
  \<^verbatim>\<open>about\<close> and \<^verbatim>\<open>about/\<close>, and fails for \<^verbatim>\<open>missing\<close>. For a path under \<^verbatim>\<open>_next/\<close>
  with no line terminator it holds, except that a path of the form
  \<^verbatim>\<open>_next/static/unoptimized-build/pages/<page>.js\<close> is served only for the default
  pages and for the pages that exist.
\<close>

theorem shouldServe_two_pages:
  assumes d: "path_dirname entrypoint = ''.''"
      and pages: "dom fls = {''pages/index.js'', ''pages/about.js''}"
      and keep: "\<forall>k. startsWith k ''pages/'' \<longrightarrow> includeOnlyEntryDirectory c fls ''pages'' k = fls k"
      and scope: "\<forall>k. fls k = None \<longrightarrow> includeOnlyEntryDirectory c fls ''pages'' k = None"
  shows "shouldServe c entrypoint fls [] = Some True
       \<and> shouldServe c entrypoint fls ''/'' = Some True
       \<and> shouldServe c entrypoint fls ''about'' = Some True
       \<and> shouldServe c entrypoint fls ''about/'' = Some True
       \<and> shouldServe c entrypoint fls ''missing'' = Some False
       \<and> (\<forall>p. lineFree p \<longrightarrow>
             shouldServe c entrypoint fls (''_next/'' @ p) =
               Some (case matchPrefixJs ''_next/static/unoptimized-build/pages/'' (''_next/'' @ p) of
                       None \<Rightarrow> True
                     | Some page \<Rightarrow>
                         page \<in> {''_error'', ''_document'', ''_app'', ''/'', ''index'', ''about''}))"
proof -
  note inc = scoped_pages[OF pages keep scope]
  have plain: "\<And>r. \<not> startsWith r ''static/'' \<Longrightarrow> \<not> startsWith r ''_next'' \<Longrightarrow>
      shouldServe c entrypoint fls r
        = Some ((if endsWith r ''/'' then butlast r else r) \<in> {[], ''/'', ''index'', ''about''})"
    using serve_plain[OF d inc] by (simp add: pageExists_two[OF pages])
  have a: "shouldServe c entrypoint fls [] = Some True"
    by (subst plain) (simp_all add: startsWith_def endsWith_def)
  have b: "shouldServe c entrypoint fls ''/'' = Some True"
    by (subst plain) (simp_all add: startsWith_def endsWith_def)
  have c: "shouldServe c entrypoint fls ''about'' = Some True"
    by (subst plain) (simp_all add: startsWith_def endsWith_def)
  have e: "shouldServe c entrypoint fls ''about/'' = Some True"
    by (subst plain) (simp_all add: startsWith_def endsWith_def)
  have f: "shouldServe c entrypoint fls ''missing'' = Some False"
    by (subst plain) (simp_all add: startsWith_def endsWith_def)
  have g: "shouldServe c entrypoint fls (''_next/'' @ p) =
               Some (case matchPrefixJs ''_next/static/unoptimized-build/pages/'' (''_next/'' @ p) of
                       None \<Rightarrow> True
                     | Some page \<Rightarrow>
                         page \<in> {''_error'', ''_document'', ''_app'', ''/'', ''index'', ''about''})"
    if p: "lineFree p" for p
  proof -
    define r where "r = ''_next/'' @ p"
    have nx: "testPrefixAny ''_next'' r"
      using p by (simp add: r_def testPrefixAny_def startsWith_def dotPlus_def lineFree_def)
    have ns: "\<not> startsWith r ''static/''"
      by (simp add: r_def startsWith_def)
    have "shouldServe c entrypoint fls r =
        Some (case matchPrefixJs ''_next/static/unoptimized-build/pages/'' r of
                None \<Rightarrow> True
              | Some page \<Rightarrow>
                  page \<in> {''_error'', ''_document'', ''_app'', ''/'', ''index'', ''about''})"
      unfolding serve_next[OF d inc nx ns]
      by (auto simp: pageExists_two[OF pages] dest: matchPrefixJs_dotPlus split: option.splits)
    then show ?thesis unfolding r_def .
  qed
  from a b c e f g show ?thesis by blast
qed

lemma example_scoped: "includeOnlyEntryDirectory (exampleWorld i sc t) twoPages ''pages'' = twoPages"
  by (rule ext) (simp add: exampleWorld_def twoPages_def startsWith_def)

lemma twoPages_dom: "dom twoPages = {''pages/index.js'', ''pages/about.js''}"
  by (auto simp: twoPages_def)

theorem shouldServe_two_pages_witness:
  "path_dirname ''package.json'' = ''.''
   \<and> dom twoPages = {''pages/index.js'', ''pages/about.js''}
   \<and> includeOnlyEntryDirectory (exampleWorld npmInstall nextBuild serverlessText) twoPages ''pages''
       = twoPages
   \<and> shouldServe (exampleWorld npmInstall nextBuild serverlessText) ''package.json'' twoPages ''about/''
       = Some True
   \<and> shouldServe (exampleWorld npmInstall nextBuild serverlessText) ''package.json'' twoPages ''missing''
       = Some False
   \<and> lineFree ''static/chunks/main.js''
   \<and> shouldServe (exampleWorld npmInstall nextBuild serverlessText) ''package.json'' twoPages
         ''_next/static/chunks/main.js'' = Some True
   \<and> shouldServe (exampleWorld npmInstall nextBuild serverlessText) ''package.json'' twoPages
         ''_next/static/unoptimized-build/pages/about.js'' = Some True"
proof -
  let ?c = "exampleWorld npmInstall nextBuild serverlessText"
  have d: "path_dirname ''package.json'' = ''.''" by code_simp
  have sc: "includeOnlyEntryDirectory ?c twoPages ''pages'' = twoPages" by (rule example_scoped)
  have keep: "\<forall>k. startsWith k ''pages/'' \<longrightarrow> includeOnlyEntryDirectory ?c twoPages ''pages'' k = twoPages k"
    by (simp add: example_scoped)
  have scope: "\<forall>k. twoPages k = None \<longrightarrow> includeOnlyEntryDirectory ?c twoPages ''pages'' k = None"
    by (simp add: example_scoped)
  note t = shouldServe_two_pages [OF d twoPages_dom keep scope]
  note e = t[THEN conjunct2, THEN conjunct2, THEN conjunct2, THEN conjunct1]
  note f = t[THEN conjunct2, THEN conjunct2, THEN conjunct2, THEN conjunct2, THEN conjunct1]
  note g = t[THEN conjunct2, THEN conjunct2, THEN conjunct2, THEN conjunct2, THEN conjunct2, rule_format]
  have l1: "lineFree ''static/chunks/main.js''" by (simp add: lineFree_def)
  have l2: "lineFree ''static/unoptimized-build/pages/about.js''" by (simp add: lineFree_def)
  have m1: "matchPrefixJs ''_next/static/unoptimized-build/pages/'' (''_next/'' @ ''static/chunks/main.js'') = None"
    by (simp add: matchPrefixJs_def startsWith_def)
  have m2: "matchPrefixJs ''_next/static/unoptimized-build/pages/''
              (''_next/'' @ ''static/unoptimized-build/pages/about.js'') = Some ''about''"
    by (simp add: matchPrefixJs_def startsWith_def endsWith_def dotPlus_def)
  have s1: "shouldServe ?c ''package.json'' twoPages (''_next/'' @ ''static/chunks/main.js'') = Some True"
    by (simp only: g[OF l1] m1 option.case)
  have "shouldServe ?c ''package.json'' twoPages
      (''_next/'' @ ''static/unoptimized-build/pages/about.js'')
        = Some (''about'' \<in> {''_error'', ''_document'', ''_app'', ''/'', ''index'', ''about''})"
    by (simp only: g[OF l2] m2 option.case)
  then have s2: "shouldServe ?c ''package.json'' twoPages
      (''_next/'' @ ''static/unoptimized-build/pages/about.js'') = Some True"
    by simp
  from d twoPages_dom sc e f l1 s1 s2 show ?thesis by simp
qed

theorem shouldServe_next_counterexample:
  "dom twoPages = {''pages/index.js'', ''pages/about.js''}
   \<and> startsWith ''_next/static/unoptimized-build/pages/missing.js'' ''_next/''
   \<and> shouldServe (exampleWorld npmInstall nextBuild serverlessText) ''package.json'' twoPages
         ''_next/static/unoptimized-build/pages/missing.js'' = Some False"
proof -
  have "shouldServe (exampleWorld npmInstall nextBuild serverlessText) ''package.json'' twoPages
         ''_next/static/unoptimized-build/pages/missing.js'' = Some False"
    by code_simp
  moreover have "startsWith ''_next/static/unoptimized-build/pages/missing.js'' ''_next/''"
    by (simp add: startsWith_def)
  ultimately show ?thesis using twoPages_dom by simp
qed

section \<open>A requirement that is no range\<close>

text \<open>
  C3, as the code has it. A requirement that \<^verbatim>\<open>semver\<close> cannot parse as a range, and
  that is not a string of the legacy list, is classified modern: \<^verbatim>\<open>maxSatisfying\<close>
  gives \<^verbatim>\<open>null\<close> for it, and nothing fails.
\<close>

theorem unparsable_requirement_is_modern:
  assumes "semver_Range sv v = None" and "v \<notin> set legacy"
  shows "isLegacyNext sv legacy v = False"
  using assms by (simp add: isLegacyNext_def maxSatisfying_def)

lemma git_url_unparsable: "semver_Range semverFragment ''github:zeit/next.js'' = None"
  by (simp add: fragment_defs)

theorem unparsable_requirement_is_modern_witness:
  "semver_Range semverFragment ''github:zeit/next.js'' = None
   \<and> ''github:zeit/next.js'' \<notin> set [''6.1.2'', ''7.0.0'', ''7.0.1'', ''7.0.2'']
   \<and> isLegacyNext semverFragment [''6.1.2'', ''7.0.0'', ''7.0.1'', ''7.0.2''] ''github:zeit/next.js''
       = False"
proof -
  have n: "''github:zeit/next.js'' \<notin> set [''6.1.2'', ''7.0.0'', ''7.0.1'', ''7.0.2'']" by simp
  from unparsable_requirement_is_modern [OF git_url_unparsable n] git_url_unparsable n
  show ?thesis by blast
qed

theorem unparsable_requirement_counterexample:
  "semver_Range semverFragment ''github:zeit/next.js'' = None
   \<and> ''github:zeit/next.js'' \<noteq> ''latest'' \<and> ''github:zeit/next.js'' \<noteq> ''canary''
   \<and> getNextVersion (manifest ''github:zeit/next.js'' None) = Some ''github:zeit/next.js''
   \<and> isLegacyNext semverFragment [''6.1.2'', ''7.0.0'', ''7.0.1'', ''7.0.2''] ''github:zeit/next.js''
       = False
   \<and> succeeded (fst (build (exampleWorld npmInstall nextBuild gitText) exampleFiles ''/work''
         ''package.json'' production (initialState None)))"
proof -
  have a: "getNextVersion (manifest ''github:zeit/next.js'' None) = Some ''github:zeit/next.js''"
    by (simp add: getNextVersion_def manifest_def getProp_def truthy_def)
  have b: "isLegacyNext semverFragment [''6.1.2'', ''7.0.0'', ''7.0.1'', ''7.0.2''] ''github:zeit/next.js''
       = False"
    by code_simp
  have c: "succeeded (fst (build (exampleWorld npmInstall nextBuild gitText) exampleFiles ''/work''
         ''package.json'' production (initialState None)))"
    by code_simp
  from git_url_unparsable a b c show ?thesis by simp
qed

section \<open>Effects: what a step leaves alone\<close>

lemmas io_defs = bnd_def ret_def throw_def catch_def whenever_def print_def printManifest_def
  inspect_def

lemma bnd_Inr:
  assumes "bnd m f s = (Inr y, s')"
  obtains x s0 where "m s = (Inr x, s0)" and "f x s0 = (Inr y, s')"
  using assms by (auto simp: bnd_def split: prod.splits sum.splits)

lemma bnd_of_Inr: "m s = (Inr x, s0) \<Longrightarrow> bnd m f s = f x s0"
  by (simp add: bnd_def)

lemma bnd_of_Inl: "m s = (Inl e, s0) \<Longrightarrow> bnd m f s = (Inl e, s0)"
  by (simp add: bnd_def)

lemma keepsEnv_bnd: "keepsEnv m \<Longrightarrow> (\<And>x. keepsEnv (f x)) \<Longrightarrow> keepsEnv (bnd m f)"
  unfolding keepsEnv_def bnd_def
  by (auto split: prod.splits sum.splits) (metis snd_conv)+

lemma keepsEnv_catch: "keepsEnv m \<Longrightarrow> (\<And>x. keepsEnv (h x)) \<Longrightarrow> keepsEnv (catch m h)"
  unfolding keepsEnv_def catch_def
  by (auto split: prod.splits sum.splits) (metis snd_conv)+

lemma keepsEnv_prims:
  "keepsEnv (ret x)" "keepsEnv (throw e)" "keepsEnv (print st msg)" "keepsEnv (printManifest st msg pkg)"
  "keepsEnv (readFile p)" "keepsEnv (writeFile p d)" "keepsEnv (unlinkFile p)" "keepsEnv (pathExists p)"
  "keepsEnv (getEnv k)" "keepsEnv (external run)" "keepsEnv (inspect g)"
  by (auto simp: keepsEnv_def io_defs readFile_def writeFile_def unlinkFile_def pathExists_def
        getEnv_def external_def split: option.splits node.splits prod.splits)

lemma keepsEnv_whenever: "keepsEnv m \<Longrightarrow> keepsEnv (whenever b m)"
  by (simp add: whenever_def keepsEnv_prims)

lemma keepsFs_bnd: "keepsFs m \<Longrightarrow> (\<And>x. keepsFs (f x)) \<Longrightarrow> keepsFs (bnd m f)"
  unfolding keepsFs_def bnd_def
  by (auto split: prod.splits sum.splits) (metis snd_conv)+

lemma keepsFs_catch: "keepsFs m \<Longrightarrow> (\<And>x. keepsFs (h x)) \<Longrightarrow> keepsFs (catch m h)"
  unfolding keepsFs_def catch_def
  by (auto split: prod.splits sum.splits) (metis snd_conv)+

lemma keepsFs_prims:
  "keepsFs (ret x)" "keepsFs (throw e)" "keepsFs (print st msg)" "keepsFs (printManifest st msg pkg)"
  "keepsFs (readFile p)" "keepsFs (pathExists p)" "keepsFs (getEnv k)" "keepsFs (inspect g)"
  by (auto simp: keepsFs_def io_defs readFile_def pathExists_def getEnv_def
        split: option.splits node.splits prod.splits)

lemma keepsFs_whenever: "keepsFs m \<Longrightarrow> keepsFs (whenever b m)"
  by (simp add: whenever_def keepsFs_prims)

lemmas keeps_intros = keepsEnv_bnd keepsEnv_catch keepsEnv_prims keepsEnv_whenever
  keepsFs_bnd keepsFs_catch keepsFs_prims keepsFs_whenever

lemma keepsEnv_readPackageJson: "keepsEnv (readPackageJson c p)"
  unfolding readPackageJson_def
  by (intro keeps_intros) (auto intro: keeps_intros split: option.splits)

lemma keepsEnv_normalizeManifest: "keepsEnv (normalizeManifest c l p pkg)"
  unfolding normalizeManifest_def writePackageJson_def
  by (auto intro!: keeps_intros)

lemma keepsFs_forEachPage: "keepsFs (forEachPage mk dir pages lam)"
  by (induction pages arbitrary: lam) (auto intro!: keeps_intros)

lemma keepsFs_printAssets: "keepsFs (printAssets xs)"
  by (induction xs) (auto intro!: keeps_intros)

lemma keepsFs_legacyLambdas: "keepsFs (legacyLambdas c ep dir)"
  unfolding legacyLambdas_def Let_def
  by (intro keeps_intros keepsFs_forEachPage)

lemma keepsFs_serverlessLambdas: "keepsFs (serverlessLambdas c w ep dir)"
  unfolding serverlessLambdas_def Let_def
  by (auto intro!: keeps_intros keepsFs_forEachPage keepsFs_printAssets split: option.splits)

lemma keepsFs_buildOutput: "keepsFs (buildOutput c fls ep dir lam)"
  unfolding buildOutput_def Let_def
  by (intro keeps_intros)

lemma keepsFs_buildPackage: "keepsFs (buildPackage c fls w e l)"
  unfolding buildPackage_def Let_def
  by (auto intro!: keeps_intros keepsFs_legacyLambdas keepsFs_serverlessLambdas keepsFs_buildOutput)

section \<open>Paths\<close>

lemma splitSlash_nonempty [simp]: "splitSlash s \<noteq> []"
  by (induction s) (auto split: list.splits)

lemma splitSlash_append:
  "splitSlash (a @ CHR ''/'' # b) = splitSlash a @ splitSlash b"
  by (induction a) (auto split: list.splits)

lemma splitSlash_slash_free: "seg \<in> set (splitSlash s) \<Longrightarrow> CHR ''/'' \<notin> set seg"
  by (induction s arbitrary: seg) (auto split: list.splits if_splits)

lemma joinSlash_splitSlash: "joinSlash (splitSlash s) = s"
proof (induction s)
  case Nil
  show ?case by simp
next
  case (Cons c s)
  obtain w ws where ws: "splitSlash s = w # ws" by (cases "splitSlash s") auto
  show ?case
  proof (cases "c = CHR ''/''")
    case True
    with Cons ws show ?thesis by simp
  next
    case False
    with Cons ws show ?thesis by (cases ws) auto
  qed
qed

lemma splitSlash_single: "CHR ''/'' \<notin> set x \<Longrightarrow> splitSlash x = [x]"
  by (induction x) auto

lemma splitSlash_joinSlash:
  "xs \<noteq> [] \<Longrightarrow> \<forall>x\<in>set xs. CHR ''/'' \<notin> set x \<Longrightarrow> splitSlash (joinSlash xs) = xs"
proof (induction xs rule: joinSlash.induct)
  case 1
  then show ?case by simp
next
  case (2 s)
  then show ?case by (simp add: splitSlash_single)
next
  case (3 s t ss)
  then show ?case by (simp add: splitSlash_append splitSlash_single)
qed

declare normalizeStep.simps [simp del]

lemma normalizeStep_proper: "properName seg \<Longrightarrow> normalizeStep ab st seg = seg # st"
  by (simp add: properName_def normalizeStep.simps)

lemma foldl_normalizeStep_proper:
  "list_all properName segs \<Longrightarrow> foldl (normalizeStep ab) st segs = rev segs @ st"
  by (induction segs arbitrary: st) (simp_all add: normalizeStep_proper)

lemma normalizeStep_subset:
  "set (normalizeStep ab st seg) \<subseteq> insert seg (set st)"
  by (cases st) (auto simp: normalizeStep.simps)

lemma normalizeStep_slash_free:
  "\<forall>x\<in>set st. CHR ''/'' \<notin> set x \<Longrightarrow> CHR ''/'' \<notin> set seg \<Longrightarrow>
     \<forall>x\<in>set (normalizeStep ab st seg). CHR ''/'' \<notin> set x"
  using normalizeStep_subset[of ab st seg] by blast

lemma foldl_normalizeStep_slash_free:
  "\<forall>x\<in>set st. CHR ''/'' \<notin> set x \<Longrightarrow> \<forall>seg\<in>set segs. CHR ''/'' \<notin> set seg \<Longrightarrow>
     \<forall>x\<in>set (foldl (normalizeStep ab) st segs). CHR ''/'' \<notin> set x"
proof (induction segs arbitrary: st)
  case Nil
  then show ?case by simp
next
  case (Cons seg segs)
  have a: "\<forall>x\<in>set (normalizeStep ab st seg). CHR ''/'' \<notin> set x"
    using Cons.prems normalizeStep_subset[of ab st seg] by auto
  have b: "\<forall>s\<in>set segs. CHR ''/'' \<notin> set s" using Cons.prems by simp
  show ?case using Cons.IH[OF a b] by simp
qed

lemma proper_not_trailing:
  assumes "list_all properName (splitSlash q)"
  shows "q \<noteq> [] \<and> last q \<noteq> CHR ''/''"
proof -
  have ne: "q \<noteq> []" using assms by (auto simp: properName_def)
  have "last q \<noteq> CHR ''/''"
  proof
    assume l: "last q = CHR ''/''"
    have "q = butlast q @ CHR ''/'' # []" using ne l by (metis append_butlast_last_id)
    then have "splitSlash q = splitSlash (butlast q) @ [[]]"
      using splitSlash_append[of "butlast q" "[]"] by simp
    with assms show False by (simp add: properName_def)
  qed
  with ne show ?thesis by simp
qed

lemma path_join_proper:
  assumes d: "dir \<noteq> []" and q: "list_all properName (splitSlash q)"
  shows "path_join [dir, q] =
     (if hd dir = CHR ''/'' then ''/'' else [])
       @ joinSlash (rev (foldl (normalizeStep (hd dir \<noteq> CHR ''/'')) [] (splitSlash dir)) @ splitSlash q)"
proof -
  from proper_not_trailing[OF q] have qne: "q \<noteq> []" and ql: "last q \<noteq> CHR ''/''" by auto
  let ?P = "dir @ CHR ''/'' # q"
  let ?ab = "hd dir \<noteq> CHR ''/''"
  let ?D = "rev (foldl (normalizeStep ?ab) [] (splitSlash dir))"
  have pj: "path_join [dir, q] = path_normalize ?P"
    using d qne by (simp add: path_join_def)
  have hdP: "hd ?P = hd dir" using d by simp
  have lastP: "last ?P = last q" using qne by simp
  have ns: "normalizeString ?P ?ab = ?D @ splitSlash q"
    by (simp add: normalizeString_def splitSlash_append foldl_normalizeStep_proper[OF q])
  have sf: "\<forall>x\<in>set (?D @ splitSlash q). CHR ''/'' \<notin> set x"
    using foldl_normalizeStep_slash_free[of "[]" "splitSlash dir" ?ab]
    by (auto dest: splitSlash_slash_free)
  have "joinSlash (?D @ splitSlash q) \<noteq> []"
  proof
    assume e: "joinSlash (?D @ splitSlash q) = []"
    have "splitSlash (joinSlash (?D @ splitSlash q)) = ?D @ splitSlash q"
      using sf by (intro splitSlash_joinSlash) auto
    with e have "?D @ splitSlash q = [[]]" by simp
    then have "last (?D @ splitSlash q) = []" by simp
    then have "last (splitSlash q) = []" by simp
    then have "[] \<in> set (splitSlash q)"
      using last_in_set[of "splitSlash q"] by simp
    with q show False by (auto simp: list_all_iff properName_def)
  qed
  then show ?thesis
    unfolding pj path_normalize_def using ns hdP lastP ql by (simp add: Let_def)
qed

lemma path_join_inj:
  assumes d: "dir \<noteq> []" and q: "list_all properName (splitSlash q)"
      and q': "list_all properName (splitSlash q')"
      and eq: "path_join [dir, q] = path_join [dir, q']"
  shows "q = q'"
proof -
  let ?ab = "hd dir \<noteq> CHR ''/''"
  let ?D = "rev (foldl (normalizeStep ?ab) [] (splitSlash dir))"
  have sf: "\<And>r. \<forall>x\<in>set (?D @ splitSlash r). CHR ''/'' \<notin> set x"
    using foldl_normalizeStep_slash_free[of "[]" "splitSlash dir" ?ab]
    by (auto dest: splitSlash_slash_free)
  from eq have "joinSlash (?D @ splitSlash q) = joinSlash (?D @ splitSlash q')"
    by (simp add: path_join_proper[OF d q] path_join_proper[OF d q'])
  then have "splitSlash (joinSlash (?D @ splitSlash q)) = splitSlash (joinSlash (?D @ splitSlash q'))"
    by simp
  then have "?D @ splitSlash q = ?D @ splitSlash q'"
    using sf[of q] sf[of q'] by (simp add: splitSlash_joinSlash)
  then have "joinSlash (splitSlash q) = joinSlash (splitSlash q')" by simp
  then show ?thesis by (simp add: joinSlash_splitSlash)
qed

lemma path_dirname_nonempty: "path_dirname p \<noteq> []"
  unfolding path_dirname_def Let_def
  by (cases "p = []")
     (simp_all del: dropWhile_eq_Cons_conv dropWhile_eq_Nil_conv split: list.split)

section \<open>The pages that are packaged\<close>

lemma forEachPage_result:
  "\<exists>lam' s'. forEachPage mk dir pages lam s = (Inr lam', s')
      \<and> dom lam' = dom lam \<union> lambdaKey dir ` {p \<in> fst ` set pages. p \<notin> set specialPages}"
proof (induction pages arbitrary: lam s)
  case Nil
  show ?case by (simp add: ret_def)
next
  case (Cons a pages)
  obtain page f where a: "a = (page, f)" by (cases a)
  show ?case
  proof (cases "page \<in> set specialPages")
    case True
    from Cons.IH[of lam s] obtain lam' s' where
      h: "forEachPage mk dir pages lam s = (Inr lam', s')"
         "dom lam' = dom lam \<union> lambdaKey dir ` {p \<in> fst ` set pages. p \<notin> set specialPages}"
      by blast
    have "{p \<in> fst ` set (a # pages). p \<notin> set specialPages}
            = {p \<in> fst ` set pages. p \<notin> set specialPages}"
      using True a by auto
    with h True a show ?thesis by simp
  next
    case False
    define s2 where "s2 = s\<lparr>console := console s
        @ [Print ConsoleLog (''Creating lambda for page: '' @ [CHR 0x22] @ page @ [CHR 0x22] @ ''...''),
           Print ConsoleLog (''Created lambda for page: '' @ [CHR 0x22] @ page @ [CHR 0x22])]\<rparr>"
    have step: "forEachPage mk dir (a # pages) lam s
        = forEachPage mk dir pages (lam(lambdaKey dir page \<mapsto> mk page f)) s2"
      using False a by (simp add: io_defs s2_def)
    from Cons.IH[of "lam(lambdaKey dir page \<mapsto> mk page f)" s2] obtain lam' s' where
      h: "forEachPage mk dir pages (lam(lambdaKey dir page \<mapsto> mk page f)) s2 = (Inr lam', s')"
         "dom lam' = dom (lam(lambdaKey dir page \<mapsto> mk page f))
             \<union> lambdaKey dir ` {p \<in> fst ` set pages. p \<notin> set specialPages}"
      by blast
    have "{p \<in> fst ` set (a # pages). p \<notin> set specialPages}
            = insert page {p \<in> fst ` set pages. p \<notin> set specialPages}"
      using False a by auto
    with h step show ?thesis by simp
  qed
qed

lemma forEachPage_dom:
  "forEachPage mk dir pages Map.empty s = (Inr lam, s') \<Longrightarrow>
     dom lam = lambdaKey dir ` {p \<in> fst ` set pages. p \<notin> set specialPages}"
  using forEachPage_result[of mk dir pages Map.empty s] by auto

lemma printAssets_result:
  "printAssets xs s = (Inr (), s\<lparr>console := console s @ map (\<lambda>a. Print ConsoleLog (CHR 0x09 # a)) xs\<rparr>)"
  by (induction xs arbitrary: s) (auto simp: io_defs)

lemma legacyLambdas_ok:
  assumes "legacyLambdas c (path_join [w, path_dirname e]) dir s = (Inr lam, s')"
  shows "dom lam = lambdaKey dir ` {p \<in> set (discoveredPages c w e True (fs s)). p \<notin> set specialPages}"
  using assms unfolding legacyLambdas_def discoveredPages_def
  by (auto simp: io_defs readFile_def Let_def dest!: forEachPage_dom
        split: option.splits node.splits prod.splits sum.splits)

lemma serverlessLambdas_ok:
  assumes "serverlessLambdas c w (path_join [w, path_dirname e]) dir s = (Inr lam, s')"
  shows "dom lam = lambdaKey dir ` {p \<in> set (discoveredPages c w e False (fs s)). p \<notin> set specialPages}"
  using assms unfolding serverlessLambdas_def discoveredPages_def
  by (auto simp: io_defs printAssets_result Let_def dest!: forEachPage_dom
        split: option.splits node.splits prod.splits sum.splits if_splits)

section \<open>The manifest in serverless mode\<close>

lemma injectNowBuild_absent:
  assumes "getProp (scripts pkg) ''now-build'' = None"
  shows "scripts (injectNowBuild pkg)
     = Some ((case scripts pkg of None \<Rightarrow> Map.empty | Some m \<Rightarrow> m)(''now-build'' \<mapsto> ''next build''))"
proof -
  have "[''now-build'' \<mapsto> ''next build''] ++ (case scripts pkg of None \<Rightarrow> Map.empty | Some m \<Rightarrow> m)
      = (case scripts pkg of None \<Rightarrow> Map.empty | Some m \<Rightarrow> m)(''now-build'' \<mapsto> ''next build'')"
    using assms by (auto simp: getProp_def map_add_def fun_eq_iff split: option.splits)
  then show ?thesis by (simp add: injectNowBuild_def)
qed

lemma injectNowBuild_others:
  "k \<noteq> ''now-build'' \<Longrightarrow> getProp (scripts (injectNowBuild pkg)) k = getProp (scripts pkg) k"
  by (auto simp: injectNowBuild_def getProp_def map_add_def split: option.splits)

lemma injectNowBuild_twice: "scripts (injectNowBuild (injectNowBuild pkg)) = scripts (injectNowBuild pkg)"
  by (auto simp: injectNowBuild_def map_add_def fun_eq_iff split: option.splits)

lemma normalizeManifest_modern:
  "normalizeManifest c False ep pkg s = (Inr pkg', s') \<Longrightarrow>
     (truthy (getProp (scripts pkg) ''now-build'') \<and> pkg' = pkg \<and> s' = s)
     \<or> (\<not> truthy (getProp (scripts pkg) ''now-build'') \<and> pkg' = injectNowBuild pkg)"
  by (auto simp: normalizeManifest_def io_defs writePackageJson_def writeFile_def
        split: if_splits option.splits node.splits prod.splits sum.splits)

text \<open>
  C8, as the code has it. In serverless mode: a manifest whose \<^verbatim>\<open>now-build\<close> script is a
  non-empty command is left as it is, and so is the state; a manifest with no
  \<^verbatim>\<open>now-build\<close> entry gets exactly the default entry and is written to disk; in every
  case the other scripts are kept, and normalising the result again gives the same
  scripts. (An entry that is there but empty counts as missing for the test.)
\<close>

theorem normalizer_modern:
  "(truthy (getProp (scripts pkg) ''now-build'') \<longrightarrow>
      normalizeManifest c False ep pkg s = (Inr pkg, s))
   \<and> (getProp (scripts pkg) ''now-build'' = None
        \<and> fs s (path_join [ep, ''package.json'']) \<noteq> Some DirNode \<longrightarrow>
      fst (normalizeManifest c False ep pkg s)
        = Inr (pkg\<lparr>scripts := Some ((case scripts pkg of None \<Rightarrow> Map.empty | Some m \<Rightarrow> m)
                                      (''now-build'' \<mapsto> ''next build''))\<rparr>)
      \<and> fs (snd (normalizeManifest c False ep pkg s)) (path_join [ep, ''package.json''])
        = Some (FileNode (JSON_stringify c
            (pkg\<lparr>scripts := Some ((case scripts pkg of None \<Rightarrow> Map.empty | Some m \<Rightarrow> m)
                                      (''now-build'' \<mapsto> ''next build''))\<rparr>))))
   \<and> (\<forall>pkg1 s1 k. normalizeManifest c False ep pkg s = (Inr pkg1, s1) \<and> k \<noteq> ''now-build'' \<longrightarrow>
        getProp (scripts pkg1) k = getProp (scripts pkg) k)
   \<and> (\<forall>pkg1 s1 s' pkg2 s2. normalizeManifest c False ep pkg s = (Inr pkg1, s1)
          \<and> normalizeManifest c False ep pkg1 s' = (Inr pkg2, s2) \<longrightarrow>
        scripts pkg2 = scripts pkg1)"
proof -
  have untouched: "truthy (getProp (scripts pkg) ''now-build'') \<longrightarrow>
      normalizeManifest c False ep pkg s = (Inr pkg, s)"
    by (simp add: normalizeManifest_def ret_def)
  have injected: "getProp (scripts pkg) ''now-build'' = None
        \<and> fs s (path_join [ep, ''package.json'']) \<noteq> Some DirNode \<longrightarrow>
      fst (normalizeManifest c False ep pkg s)
        = Inr (pkg\<lparr>scripts := Some ((case scripts pkg of None \<Rightarrow> Map.empty | Some m \<Rightarrow> m)
                                      (''now-build'' \<mapsto> ''next build''))\<rparr>)
      \<and> fs (snd (normalizeManifest c False ep pkg s)) (path_join [ep, ''package.json''])
        = Some (FileNode (JSON_stringify c
            (pkg\<lparr>scripts := Some ((case scripts pkg of None \<Rightarrow> Map.empty | Some m \<Rightarrow> m)
                                      (''now-build'' \<mapsto> ''next build''))\<rparr>)))"
  proof (intro impI, elim conjE)
    assume a: "getProp (scripts pkg) ''now-build'' = None"
       and d: "fs s (path_join [ep, ''package.json'']) \<noteq> Some DirNode"
    have e: "injectNowBuild pkg
        = pkg\<lparr>scripts := Some ((case scripts pkg of None \<Rightarrow> Map.empty | Some m \<Rightarrow> m)
                                   (''now-build'' \<mapsto> ''next build''))\<rparr>"
      using injectNowBuild_absent[OF a] by (simp add: injectNowBuild_def)
    show "fst (normalizeManifest c False ep pkg s)
        = Inr (pkg\<lparr>scripts := Some ((case scripts pkg of None \<Rightarrow> Map.empty | Some m \<Rightarrow> m)
                                      (''now-build'' \<mapsto> ''next build''))\<rparr>)
      \<and> fs (snd (normalizeManifest c False ep pkg s)) (path_join [ep, ''package.json''])
        = Some (FileNode (JSON_stringify c
            (pkg\<lparr>scripts := Some ((case scripts pkg of None \<Rightarrow> Map.empty | Some m \<Rightarrow> m)
                                      (''now-build'' \<mapsto> ''next build''))\<rparr>)))"
      unfolding e[symmetric] using a d
      by (auto simp: normalizeManifest_def io_defs writePackageJson_def writeFile_def truthy_def
            split: option.splits node.splits)
  qed
  have others: "\<forall>pkg1 s1 k. normalizeManifest c False ep pkg s = (Inr pkg1, s1) \<and> k \<noteq> ''now-build'' \<longrightarrow>
        getProp (scripts pkg1) k = getProp (scripts pkg) k"
    using normalizeManifest_modern injectNowBuild_others by blast
  have twice: "\<forall>pkg1 s1 s' pkg2 s2. normalizeManifest c False ep pkg s = (Inr pkg1, s1)
          \<and> normalizeManifest c False ep pkg1 s' = (Inr pkg2, s2) \<longrightarrow>
        scripts pkg2 = scripts pkg1"
  proof (intro allI impI, elim conjE)
    fix pkg1 s1 s' pkg2 s2
    assume r1: "normalizeManifest c False ep pkg s = (Inr pkg1, s1)"
       and r2: "normalizeManifest c False ep pkg1 s' = (Inr pkg2, s2)"
    from normalizeManifest_modern[OF r2] consider "pkg2 = pkg1" | "\<not> truthy (getProp (scripts pkg1) ''now-build'')" "pkg2 = injectNowBuild pkg1"
      by blast
    then show "scripts pkg2 = scripts pkg1"
    proof cases
      case 1
      then show ?thesis by simp
    next
      case 2
      from normalizeManifest_modern[OF r1] have "pkg1 = injectNowBuild pkg"
        using 2(1) by blast
      with 2(2) show ?thesis by (simp add: injectNowBuild_twice)
    qed
  qed
  from untouched injected others twice show ?thesis by blast
qed

lemma work_manifest_path: "path_join [''/work'', ''package.json''] = ''/work/package.json''"
  by code_simp

theorem normalizer_modern_witness:
  "truthy (getProp (scripts scriptedManifest) ''now-build'')
   \<and> normalizeManifest (exampleWorld npmInstall nextBuild serverlessText) False ''/work''
         scriptedManifest (initialState None) = (Inr scriptedManifest, initialState None)
   \<and> getProp (scripts plainManifest) ''now-build'' = None
   \<and> fs (initialState None) (path_join [''/work'', ''package.json'']) \<noteq> Some DirNode
   \<and> (case fst (normalizeManifest (exampleWorld npmInstall nextBuild serverlessText) False ''/work''
                    plainManifest (initialState None)) of
          Inl e \<Rightarrow> False
        | Inr p \<Rightarrow> getProp (scripts p) ''now-build'' = Some ''next build'')
   \<and> fst (normalizeManifest (exampleWorld npmInstall nextBuild serverlessText) False ''/work''
              emptyScriptManifest (initialState None)) = Inr (injectNowBuild emptyScriptManifest)
   \<and> fst (normalizeManifest (exampleWorld npmInstall nextBuild serverlessText) False ''/work''
              (injectNowBuild emptyScriptManifest) (initialState None))
         = Inr (injectNowBuild (injectNowBuild emptyScriptManifest))
   \<and> scripts (injectNowBuild (injectNowBuild emptyScriptManifest))
         = scripts (injectNowBuild emptyScriptManifest)"
proof -
  let ?c = "exampleWorld npmInstall nextBuild serverlessText"
  let ?s = "initialState None"
  note t = normalizer_modern[of scriptedManifest ?c "''/work''" ?s]
  note u = normalizer_modern[of plainManifest ?c "''/work''" ?s]
  note v = normalizer_modern[of emptyScriptManifest ?c "''/work''" ?s]
  have a: "truthy (getProp (scripts scriptedManifest) ''now-build'')"
    by (simp add: scriptedManifest_def manifest_def getProp_def truthy_def)
  have b: "normalizeManifest ?c False ''/work'' scriptedManifest ?s = (Inr scriptedManifest, ?s)"
    using t a by blast
  have c: "getProp (scripts plainManifest) ''now-build'' = None"
    by (simp add: plainManifest_def manifest_def getProp_def)
  have d: "fs ?s (path_join [''/work'', ''package.json'']) \<noteq> Some DirNode"
    by (simp add: work_manifest_path initialState_def)
  from u c d have "fst (normalizeManifest ?c False ''/work'' plainManifest ?s)
      = Inr (plainManifest\<lparr>scripts := Some ((case scripts plainManifest of None \<Rightarrow> Map.empty | Some m \<Rightarrow> m)
                                      (''now-build'' \<mapsto> ''next build''))\<rparr>)"
    by blast
  then have e: "(case fst (normalizeManifest ?c False ''/work'' plainManifest ?s) of
          Inl e \<Rightarrow> False
        | Inr p \<Rightarrow> getProp (scripts p) ''now-build'' = Some ''next build'')"
    by (simp add: getProp_def)
  have nt: "\<not> truthy (getProp (scripts emptyScriptManifest) ''now-build'')"
    by (simp add: emptyScriptManifest_def manifest_def getProp_def truthy_def)
  have nt2: "\<not> truthy (getProp (scripts (injectNowBuild emptyScriptManifest)) ''now-build'')"
    by (simp add: emptyScriptManifest_def manifest_def getProp_def truthy_def injectNowBuild_def)
  have f: "fst (normalizeManifest ?c False ''/work'' emptyScriptManifest ?s) = Inr (injectNowBuild emptyScriptManifest)"
    using nt d
    by (simp add: normalizeManifest_def io_defs writePackageJson_def writeFile_def
          split: option.splits node.splits)
  have g: "fst (normalizeManifest ?c False ''/work'' (injectNowBuild emptyScriptManifest) ?s)
         = Inr (injectNowBuild (injectNowBuild emptyScriptManifest))"
    using nt2 d
    by (simp add: normalizeManifest_def io_defs writePackageJson_def writeFile_def
          split: option.splits node.splits)
  have f': "normalizeManifest ?c False ''/work'' emptyScriptManifest ?s
      = (Inr (injectNowBuild emptyScriptManifest), snd (normalizeManifest ?c False ''/work'' emptyScriptManifest ?s))"
    using f by (metis prod.collapse)
  have g': "normalizeManifest ?c False ''/work'' (injectNowBuild emptyScriptManifest) ?s
      = (Inr (injectNowBuild (injectNowBuild emptyScriptManifest)),
         snd (normalizeManifest ?c False ''/work'' (injectNowBuild emptyScriptManifest) ?s))"
    using g by (metis prod.collapse)
  note twice = v[THEN conjunct2, THEN conjunct2, THEN conjunct2, rule_format]
  have h: "scripts (injectNowBuild (injectNowBuild emptyScriptManifest))
         = scripts (injectNowBuild emptyScriptManifest)"
    by (rule twice[OF conjI[OF f' g']])
  from a b c d e f g h show ?thesis by (intro conjI)
qed



theorem normalizer_empty_script_counterexample:
  "getProp (scripts emptyScriptManifest) ''now-build'' = Some []
   \<and> map fst (writes (snd (normalizeManifest (exampleWorld npmInstall nextBuild serverlessText) False
         ''/work'' emptyScriptManifest (initialState None)))) = [''/work/package.json'']
   \<and> (case fst (normalizeManifest (exampleWorld npmInstall nextBuild serverlessText) False ''/work''
                    emptyScriptManifest (initialState None)) of
          Inl e \<Rightarrow> False
        | Inr p \<Rightarrow> getProp (scripts p) ''now-build'' = Some [])"
  by code_simp

section \<open>The cache\<close>

lemma readPackageJson_console:
  "fst (readPackageJson c p (s\<lparr>console := x\<rparr>)) = fst (readPackageJson c p s)"
  by (simp add: readPackageJson_def io_defs readFile_def split: option.splits node.splits)

lemma readPackageJson_Inr: "\<exists>pkg s'. readPackageJson c p s = (Inr pkg, s')"
  by (simp add: readPackageJson_def io_defs readFile_def split: option.splits node.splits)

lemma getNextVersion_truthy: "truthy (getNextVersion pkg) = (getNextVersion pkg \<noteq> None)"
  by (auto simp: getNextVersion_def truthy_def split: option.splits)

lemma prepareCache_cases:
  "fst (prepareCache c w e s) =
     (case detectedVersion c (path_join [w, path_dirname e]) s of
        None \<Rightarrow> Inl (Error ''Could not parse Next.js version'')
      | Some v \<Rightarrow>
          (if isLegacyNext (semverLib c) (nextLegacyVersions c) v then Inr Map.empty
           else fst (prepareCache c w e s)))"
proof -
  let ?ep = "path_join [w, path_dirname e]"
  let ?s1 = "s\<lparr>console := console s @ [Print ConsoleLog ''preparing cache ...'']\<rparr>"
  obtain pkg s2 where r: "readPackageJson c ?ep ?s1 = (Inr pkg, s2)"
    using readPackageJson_Inr by blast
  then have "fst (readPackageJson c ?ep s) = Inr pkg"
    using readPackageJson_console[where c=c and p="?ep" and s=s] by (metis fst_conv)
  then have d: "detectedVersion c ?ep s = getNextVersion pkg"
    by (simp add: detectedVersion_def)
  show ?thesis
    unfolding d using r
    by (auto simp: prepareCache_def bnd_def ret_def throw_def print_def Let_def getNextVersion_truthy
          split: option.splits)
qed

text \<open>
  C9. When the version found in the manifest classifies as legacy, \<^verbatim>\<open>prepareCache\<close>
  returns the empty file set, whatever the disk holds.
\<close>

theorem prepareCache_legacy_empty:
  assumes "detectedVersion c (path_join [workPath, path_dirname entrypoint]) s = Some v"
      and "isLegacyNext (semverLib c) (nextLegacyVersions c) v"
  shows "fst (prepareCache c workPath entrypoint s) = Inr Map.empty"
  using assms by (subst prepareCache_cases) simp

text \<open>
  C10. \<^verbatim>\<open>prepareCache\<close> reads the manifest from disk again, and throws
  \<^verbatim>\<open>Could not parse Next.js version\<close> when no framework dependency is found in it,
  whatever a build did before.
\<close>

theorem prepareCache_no_version:
  assumes "detectedVersion c (path_join [workPath, path_dirname entrypoint]) s = None"
  shows "fst (prepareCache c workPath entrypoint s) = Inl (Error ''Could not parse Next.js version'')"
  using assms by (subst prepareCache_cases) simp

theorem prepareCache_legacy_empty_witness:
  "detectedVersion (exampleWorld npmInstall nextBuild legacyText)
       (path_join [''/work'', path_dirname ''package.json'']) legacyProject = Some ''^7.0.0''
   \<and> isLegacyNext (semverLib (exampleWorld npmInstall nextBuild legacyText))
         (nextLegacyVersions (exampleWorld npmInstall nextBuild legacyText)) ''^7.0.0''
   \<and> fst (prepareCache (exampleWorld npmInstall nextBuild legacyText) ''/work'' ''package.json''
            legacyProject) = Inr Map.empty"
proof -
  have a: "detectedVersion (exampleWorld npmInstall nextBuild legacyText)
       (path_join [''/work'', path_dirname ''package.json'']) legacyProject = Some ''^7.0.0''"
    by code_simp
  have b: "isLegacyNext (semverLib (exampleWorld npmInstall nextBuild legacyText))
         (nextLegacyVersions (exampleWorld npmInstall nextBuild legacyText)) ''^7.0.0''"
    by code_simp
  from prepareCache_legacy_empty [OF a b] a b show ?thesis by (intro conjI)
qed

theorem prepareCache_no_version_witness:
  "succeeded (fst (build (exampleWorld npmInstall cleaningScript serverlessText) exampleFiles ''/work''
       ''package.json'' production (initialState None)))
   \<and> detectedVersion (exampleWorld npmInstall cleaningScript serverlessText)
         (path_join [''/work'', path_dirname ''package.json''])
         (snd (build (exampleWorld npmInstall cleaningScript serverlessText) exampleFiles ''/work''
                 ''package.json'' production (initialState None))) = None
   \<and> fst (prepareCache (exampleWorld npmInstall cleaningScript serverlessText) ''/work'' ''package.json''
           (snd (build (exampleWorld npmInstall cleaningScript serverlessText) exampleFiles ''/work''
                   ''package.json'' production (initialState None))))
       = Inl (Error ''Could not parse Next.js version'')"
proof -
  have a: "succeeded (fst (build (exampleWorld npmInstall cleaningScript serverlessText) exampleFiles ''/work''
       ''package.json'' production (initialState None)))"
    by code_simp
  have b: "detectedVersion (exampleWorld npmInstall cleaningScript serverlessText)
         (path_join [''/work'', path_dirname ''package.json''])
         (snd (build (exampleWorld npmInstall cleaningScript serverlessText) exampleFiles ''/work''
                 ''package.json'' production (initialState None))) = None"
    by code_simp
  from prepareCache_no_version [OF b] a b show ?thesis by (intro conjI)
qed

section \<open>The phases of a build\<close>

lemma build_production:
  assumes "validateEntrypoint c e = None" and "fls e = Some f"
      and "\<not> (isDev m \<and> truthy (fsPath f))"
  shows "build c fls w e m s = bnd (buildPrepare c fls w e) (buildPackage c fls w e) s"
  using assms by (auto simp: build_def)

lemma build_after_prepare:
  assumes "validateEntrypoint c e = None" and "fls e = Some f"
      and "\<not> (isDev m \<and> truthy (fsPath f))"
      and "fst (buildPrepare c fls w e s) = Inr l"
  shows "build c fls w e m s = buildPackage c fls w e l (snd (buildPrepare c fls w e s))"
proof -
  have "buildPrepare c fls w e s = (Inr l, snd (buildPrepare c fls w e s))"
    using assms(4) by (metis prod.collapse)
  then have "bnd (buildPrepare c fls w e) (buildPackage c fls w e) s
      = buildPackage c fls w e l (snd (buildPrepare c fls w e s))"
    by (rule bnd_of_Inr)
  moreover have "build c fls w e m s = bnd (buildPrepare c fls w e) (buildPackage c fls w e) s"
    using assms(1-3) by (rule build_production)
  ultimately show ?thesis by simp
qed

lemma legacyLambdas_missing:
  assumes "fs s (path_join [ep, ''.next'', ''BUILD_ID'']) = None"
  shows \<open>legacyLambdas c ep dir s =
     (Inl (Error ''Missing BUILD_ID''),
      s\<lparr>console := console s @ [Print ConsoleLog ''preparing lambda files...'',
          Print ConsoleError ''BUILD_ID not found in ".next". The "package.json" "build" script did not run "next build"'']\<rparr>)\<close>
  using assms unfolding legacyLambdas_def
  by (simp add: io_defs readFile_def)

lemma serverlessLambdas_empty:
  assumes "glob c ''**/*.js'' (path_join [ep, ''.next'', ''serverless'', ''pages'']) (fs s) = []"
  shows "serverlessLambdas c w ep dir s =
     (Inl (Error ''No serverless pages were built. https://err.sh/zeit/now-builders/now-next-no-serverless-pages-built''),
      s\<lparr>console := console s @ Print ConsoleLog ''preparing lambda files...'' #
          (case getNextConfig c w ep (fs s) of
             None \<Rightarrow> []
           | Some cfg \<Rightarrow> [Print ConsoleInfo ''Found next.config.js:'', Print ConsoleInfo cfg,
                          Print ConsoleInfo []])\<rparr>)"
  using assms unfolding serverlessLambdas_def
  by (simp add: io_defs Let_def split: option.splits)

text \<open>
  C6. Take a build that is not a development build and whose install and build script
  went through. In legacy mode, when \<^verbatim>\<open>.next/BUILD_ID\<close> is absent from the disk they
  left, the build throws \<^verbatim>\<open>Missing BUILD_ID\<close> after reporting it on the console. In
  serverless mode, when no page bundle is found under \<^verbatim>\<open>.next/serverless/pages\<close>, the
  build throws \<^verbatim>\<open>No serverless pages were built\<close>, and the contents of the framework
  configuration, if one is found, are printed before that. Neither returns an output.
\<close>

theorem artifacts_missing_abort:
  assumes "validateEntrypoint c entrypoint = None" and "fls entrypoint = Some f"
      and "\<not> (isDev m \<and> truthy (fsPath f))"
      and "fst (buildPrepare c fls workPath entrypoint s) = Inr isLegacy"
  shows \<open>(isLegacy
           \<and> fs (snd (buildPrepare c fls workPath entrypoint s))
                (path_join [path_join [workPath, path_dirname entrypoint], ''.next'', ''BUILD_ID'']) = None
         \<longrightarrow> build c fls workPath entrypoint m s =
               (Inl (Error ''Missing BUILD_ID''),
                (snd (buildPrepare c fls workPath entrypoint s))
                  \<lparr>console := console (snd (buildPrepare c fls workPath entrypoint s))
                     @ [Print ConsoleLog ''preparing lambda files...'',
                        Print ConsoleError ''BUILD_ID not found in ".next". The "package.json" "build" script did not run "next build"'']\<rparr>))
       \<and> (\<not> isLegacy
           \<and> glob c ''**/*.js''
                (path_join [path_join [workPath, path_dirname entrypoint], ''.next'', ''serverless'', ''pages''])
                (fs (snd (buildPrepare c fls workPath entrypoint s))) = []
         \<longrightarrow> build c fls workPath entrypoint m s =
               (Inl (Error ''No serverless pages were built. https://err.sh/zeit/now-builders/now-next-no-serverless-pages-built''),
                (snd (buildPrepare c fls workPath entrypoint s))
                  \<lparr>console := console (snd (buildPrepare c fls workPath entrypoint s))
                     @ Print ConsoleLog ''preparing lambda files...'' #
                       (case getNextConfig c workPath (path_join [workPath, path_dirname entrypoint])
                               (fs (snd (buildPrepare c fls workPath entrypoint s))) of
                          None \<Rightarrow> []
                        | Some cfg \<Rightarrow> [Print ConsoleInfo ''Found next.config.js:'',
                                       Print ConsoleInfo cfg, Print ConsoleInfo []])\<rparr>))\<close>
proof -
  let ?s1 = "snd (buildPrepare c fls workPath entrypoint s)"
  have b: "build c fls workPath entrypoint m s
      = buildPackage c fls workPath entrypoint isLegacy ?s1"
    using assms by (rule build_after_prepare)
  show ?thesis
  proof (cases isLegacy)
    case True
    then show ?thesis
      unfolding b
      by (auto simp: buildPackage_def Let_def legacyLambdas_missing bnd_of_Inl)
  next
    case False
    then show ?thesis
      unfolding b
      by (auto simp: buildPackage_def Let_def serverlessLambdas_empty bnd_of_Inl)
  qed
qed

lemma example_entry: "exampleFiles ''package.json'' = Some (FileRef ''a1'')"
  by (simp add: exampleFiles_def)

lemma example_valid: "validateEntrypoint (exampleWorld i sc t) ''package.json'' = None"
  by (simp add: exampleWorld_def endsWith_def)

lemma production_not_dev: "\<not> (isDev production \<and> truthy (fsPath (FileRef ''a1'')))"
  by (simp add: production_def)

theorem artifacts_missing_abort_witness:
  \<open>fst (buildPrepare (exampleWorld npmInstall idleScript legacyText) exampleFiles ''/work''
          ''package.json'' (initialState None)) = Inr True
   \<and> fs (snd (buildPrepare (exampleWorld npmInstall idleScript legacyText) exampleFiles ''/work''
              ''package.json'' (initialState None)))
        (path_join [path_join [''/work'', path_dirname ''package.json''], ''.next'', ''BUILD_ID'']) = None
   \<and> fst (build (exampleWorld npmInstall idleScript legacyText) exampleFiles ''/work''
            ''package.json'' production (initialState None)) = Inl (Error ''Missing BUILD_ID'')
   \<and> fst (buildPrepare (exampleWorld npmInstall idleScript serverlessText) exampleFiles ''/work''
          ''package.json'' configuredState) = Inr False
   \<and> glob (exampleWorld npmInstall idleScript serverlessText) ''**/*.js''
         (path_join [path_join [''/work'', path_dirname ''package.json''], ''.next'', ''serverless'', ''pages''])
         (fs (snd (buildPrepare (exampleWorld npmInstall idleScript serverlessText) exampleFiles ''/work''
                ''package.json'' configuredState))) = []
   \<and> getNextConfig (exampleWorld npmInstall idleScript serverlessText) ''/work''
         (path_join [''/work'', path_dirname ''package.json''])
         (fs (snd (buildPrepare (exampleWorld npmInstall idleScript serverlessText) exampleFiles ''/work''
                ''package.json'' configuredState))) = Some ''module.exports = {}''
   \<and> fst (build (exampleWorld npmInstall idleScript serverlessText) exampleFiles ''/work''
            ''package.json'' production configuredState)
       = Inl (Error ''No serverless pages were built. https://err.sh/zeit/now-builders/now-next-no-serverless-pages-built'')
   \<and> console (snd (build (exampleWorld npmInstall idleScript serverlessText) exampleFiles ''/work''
            ''package.json'' production configuredState))
       = console (snd (buildPrepare (exampleWorld npmInstall idleScript serverlessText) exampleFiles
            ''/work'' ''package.json'' configuredState))
         @ [Print ConsoleLog ''preparing lambda files...'', Print ConsoleInfo ''Found next.config.js:'',
            Print ConsoleInfo ''module.exports = {}'', Print ConsoleInfo []]\<close>
proof -
  let ?cl = "exampleWorld npmInstall idleScript legacyText"
  let ?cs = "exampleWorld npmInstall idleScript serverlessText"
  have l1: "fst (buildPrepare ?cl exampleFiles ''/work'' ''package.json'' (initialState None)) = Inr True"
    by code_simp
  have l2: "fs (snd (buildPrepare ?cl exampleFiles ''/work'' ''package.json'' (initialState None)))
        (path_join [path_join [''/work'', path_dirname ''package.json''], ''.next'', ''BUILD_ID'']) = None"
    by code_simp
  have s1: "fst (buildPrepare ?cs exampleFiles ''/work'' ''package.json'' configuredState) = Inr False"
    by code_simp
  have s2: "glob ?cs ''**/*.js''
         (path_join [path_join [''/work'', path_dirname ''package.json''], ''.next'', ''serverless'', ''pages''])
         (fs (snd (buildPrepare ?cs exampleFiles ''/work'' ''package.json'' configuredState))) = []"
    by code_simp
  have s3: "getNextConfig ?cs ''/work'' (path_join [''/work'', path_dirname ''package.json''])
         (fs (snd (buildPrepare ?cs exampleFiles ''/work'' ''package.json'' configuredState)))
       = Some ''module.exports = {}''"
    by code_simp
  note tl = artifacts_missing_abort [OF example_valid example_entry production_not_dev l1,
      THEN conjunct1, rule_format, OF conjI [OF TrueI l2]]
  note ts = artifacts_missing_abort [OF example_valid example_entry production_not_dev s1,
      THEN conjunct2, rule_format, OF conjI [OF _ s2]]
  have el: "fst (build ?cl exampleFiles ''/work'' ''package.json'' production (initialState None))
      = Inl (Error ''Missing BUILD_ID'')"
    by (simp add: tl)
  have es: "fst (build ?cs exampleFiles ''/work'' ''package.json'' production configuredState)
       = Inl (Error ''No serverless pages were built. https://err.sh/zeit/now-builders/now-next-no-serverless-pages-built'')"
    by (subst ts) simp_all
  have cs: "console (snd (build ?cs exampleFiles ''/work'' ''package.json'' production configuredState))
       = console (snd (buildPrepare ?cs exampleFiles ''/work'' ''package.json'' configuredState))
         @ [Print ConsoleLog ''preparing lambda files...'', Print ConsoleInfo ''Found next.config.js:'',
            Print ConsoleInfo ''module.exports = {}'', Print ConsoleInfo []]"
    by (subst ts) (simp_all add: s3)
  from l1 l2 el s1 s2 s3 es cs show ?thesis by (intro conjI)
qed

end
